theory Spec2Isabelle
  imports Complex_Main
begin

section \<open>The JavaScript runtime, as far as script.js uses it\<close>

text \<open>
  The client is one script, \<^verbatim>\<open>static/js/script.js\<close>, run by a browser: a single-threaded
  event loop, a document, the Chart.js library and a backend behind \<^verbatim>\<open>fetch\<close>.
  Each handler of the script is embedded as a function on an explicit state. An
  \<^verbatim>\<open>async\<close> function is cut at its \<^verbatim>\<open>await\<close>: the part that runs when it is called ends by
  recording the request as a pending task, and the part that runs when the response
  arrives takes the response as an argument.

  Strings are lists of code units below 256. The message of a TypeError is the
  engine's; the model names it by what was \<^verbatim>\<open>null\<close> or \<^verbatim>\<open>undefined\<close>.
\<close>

datatype js_error =
    TypeError string  \<comment> \<open>a property read or written on \<^verbatim>\<open>null\<close> or \<^verbatim>\<open>undefined\<close>\<close>
  | Rejected string   \<comment> \<open>the rejection of \<^verbatim>\<open>fetch\<close> or of \<^verbatim>\<open>response.json()\<close>\<close>

datatype 'a response =
    NetworkFailure string  \<comment> \<open>\<^verbatim>\<open>fetch\<close> or \<^verbatim>\<open>response.json()\<close> rejects with this message\<close>
  | BackendError string    \<comment> \<open>envelope \<^verbatim>\<open>{success: false, error}\<close>\<close>
  | Success 'a             \<comment> \<open>envelope \<^verbatim>\<open>{success: true, data}\<close>\<close>

text \<open>\<^verbatim>\<open>String.prototype.trim\<close>: the WhiteSpace and LineTerminator code units below 256.\<close>

definition is_space :: "char \<Rightarrow> bool" where
  "is_space c = (of_char c \<in> {9, 10, 11, 12, 13, 32, 160 :: nat})"

definition trim :: "string \<Rightarrow> string" where
  "trim s = rev (dropWhile is_space (rev (dropWhile is_space s)))"

text \<open>A string or \<^verbatim>\<open>null\<close>/\<^verbatim>\<open>undefined\<close> in a boolean position: the empty string is falsy.\<close>

definition truthy :: "string option \<Rightarrow> bool" where
  "truthy x = (case x of None \<Rightarrow> False | Some s \<Rightarrow> s \<noteq> [])"

text \<open>\<^verbatim>\<open>x || d\<close> for a string-or-undefined \<open>x\<close>.\<close>

definition or_else :: "string option \<Rightarrow> string \<Rightarrow> string" where
  "or_else x d = (case x of None \<Rightarrow> d | Some s \<Rightarrow> if s = [] then d else s)"

text \<open>\<^verbatim>\<open>Array.prototype.slice(0, n)\<close> and \<^verbatim>\<open>String.prototype.slice(0, n)\<close> for \<open>n \<ge> 0\<close>.\<close>

definition slice0 :: "nat \<Rightarrow> 'a list \<Rightarrow> 'a list" where
  "slice0 n xs = take n xs"

subsection \<open>Numbers\<close>

text \<open>
  A JavaScript number is an IEEE 754 double: a finite value, which is a rational
  (\<open>Num 0\<close> is the positive zero), the negative zero, an infinity, or not a number. The
  numbers of a reply are what \<^verbatim>\<open>JSON.parse\<close> makes of its literals, so they are doubles;
  every operation below gives a double for doubles.
\<close>

datatype number = Num rat | NegZero | PosInfinity | NegInfinity | NaN

definition pow2 :: "int \<Rightarrow> rat" where
  "pow2 k = (if 0 \<le> k then of_int (2 ^ nat k) else 1 / of_int (2 ^ nat (- k)))"

definition pow10 :: "int \<Rightarrow> rat" where
  "pow10 k = (if 0 \<le> k then of_int (10 ^ nat k) else 1 / of_int (10 ^ nat (- k)))"

text \<open>The number of binary digits of a positive integer.\<close>

function bits :: "int \<Rightarrow> nat" where
  "bits n = (if n \<le> 0 then 0 else Suc (bits (n div 2)))"
  by pat_completeness auto
termination
  by (relation "measure nat") auto

declare bits.simps [simp del]

text \<open>For \<open>x > 0\<close>, the \<open>k\<close> with \<open>2^k \<le> x < 2^(k+1)\<close>.\<close>

definition ilog2 :: "rat \<Rightarrow> int" where
  "ilog2 x = (let k = int (bits (fst (quotient_of x))) - int (bits (snd (quotient_of x)))
              in if pow2 k \<le> x then k else k - 1)"

text \<open>The nearest integer, a tie going to the even one.\<close>

definition round_even :: "rat \<Rightarrow> int" where
  "round_even x = (let n = \<lfloor>x\<rfloor>; d = x - of_int n
                   in if d < 1 / 2 then n else if 1 / 2 < d then n + 1
                      else if even n then n else n + 1)"

definition overflow_threshold :: rat where
  "overflow_threshold = 179769313486231590772930519078902473361797697894230657273430081157732675805500963132708477322407536021120113879871393357658789768814416622492847430639474124377767893424865485276302219601246094119453082952085005768838150682342462881473913110540827237163350510684586298239947245938479716304835356329624224137216"

text \<open>
  The double for a real \<open>x\<close>: the nearest of the values with a significand of 53 bits
  and an exponent of at least \<open>-1074\<close>, a tie going to the even significand; what
  reaches \<open>2^1024\<close> is an infinity, and what rounds to nothing is a zero of the sign of
  \<open>x\<close>. This is how a literal is read and how the result of an operation is rounded.
\<close>

definition nearest_double :: "rat \<Rightarrow> number" where
  "nearest_double x =
     (if x = 0 then Num 0
      else let a = \<bar>x\<bar>; e = max (ilog2 a - 52) (- 1074);
               m = round_even (a / pow2 e); v = of_int m * pow2 e
           in if overflow_threshold \<le> v then (if x < 0 then NegInfinity else PosInfinity)
              else if m = 0 then (if x < 0 then NegZero else Num 0)
              else Num (if x < 0 then - v else v))"

definition is_zero :: "number \<Rightarrow> bool" where
  "is_zero a = (a = Num 0 \<or> a = NegZero)"

definition is_infinite :: "number \<Rightarrow> bool" where
  "is_infinite a = (a = PosInfinity \<or> a = NegInfinity)"

definition negative :: "number \<Rightarrow> bool" where
  "negative a = (case a of Num x \<Rightarrow> x < 0 | NegZero \<Rightarrow> True | NegInfinity \<Rightarrow> True
                 | _ \<Rightarrow> False)"

definition real_of :: "number \<Rightarrow> rat" where
  "real_of a = (case a of Num x \<Rightarrow> x | _ \<Rightarrow> 0)"

text \<open>\<^verbatim>\<open>a * b\<close> and \<^verbatim>\<open>a / b\<close> on numbers; neither raises.\<close>

definition Number_multiply :: "number \<Rightarrow> number \<Rightarrow> number" where
  "Number_multiply a b =
     (if a = NaN \<or> b = NaN then NaN
      else if is_infinite a \<or> is_infinite b
      then (if is_zero a \<or> is_zero b then NaN
            else if negative a \<noteq> negative b then NegInfinity else PosInfinity)
      else if is_zero a \<or> is_zero b
      then (if negative a \<noteq> negative b then NegZero else Num 0)
      else nearest_double (real_of a * real_of b))"

definition Number_divide :: "number \<Rightarrow> number \<Rightarrow> number" where
  "Number_divide a b =
     (if a = NaN \<or> b = NaN then NaN
      else if is_infinite a
      then (if is_infinite b then NaN
            else if negative a \<noteq> negative b then NegInfinity else PosInfinity)
      else if is_infinite b
      then (if negative a \<noteq> negative b then NegZero else Num 0)
      else if is_zero b
      then (if is_zero a then NaN
            else if negative a \<noteq> negative b then NegInfinity else PosInfinity)
      else if is_zero a
      then (if negative a \<noteq> negative b then NegZero else Num 0)
      else nearest_double (real_of a / real_of b))"

text \<open>
  \<^verbatim>\<open>Math.round\<close>: the nearest integer, a tie going up; what rounds to zero from below
  zero is the negative zero.
\<close>

definition Math_round :: "number \<Rightarrow> number" where
  "Math_round a =
     (case a of
        Num x \<Rightarrow> (if \<lfloor>x + 1 / 2\<rfloor> = 0 then (if x < 0 then NegZero else Num 0)
                   else Num (of_int \<lfloor>x + 1 / 2\<rfloor>))
      | _ \<Rightarrow> a)"

text \<open>\<^verbatim>\<open>a >= c\<close> and the truth value of a number (\<^verbatim>\<open>a || 0\<close> is \<open>or_zero a\<close>).\<close>

definition at_least :: "number \<Rightarrow> rat \<Rightarrow> bool" where
  "at_least a c = (case a of Num x \<Rightarrow> c \<le> x | NegZero \<Rightarrow> c \<le> 0 | PosInfinity \<Rightarrow> True
                   | _ \<Rightarrow> False)"

definition or_zero :: "number \<Rightarrow> number" where
  "or_zero a = (if is_zero a \<or> a = NaN then Num 0 else a)"

definition digit_char :: "nat \<Rightarrow> char" where
  "digit_char d = ''0123456789'' ! d"

text \<open>The decimal digits of an integer that is not negative.\<close>

function dec :: "int \<Rightarrow> string" where
  "dec n = (if n < 10 then [digit_char (nat n)]
            else dec (n div 10) @ [digit_char (nat (n mod 10))])"
  by pat_completeness auto
termination
  by (relation "measure nat") auto

declare dec.simps [simp del]

text \<open>
  Number-to-string conversion, as the template literals, \<^verbatim>\<open>+\<close> with a string and
  \<^verbatim>\<open>textContent\<close> apply it: the fewest digits that read back as the same double, the
  nearest such decimal where several have that many digits, written plainly when the
  decimal point falls within 21 digits before and 6 zeros after, and with an exponent
  otherwise.

  \<open>point10 x\<close> is the \<open>n\<close> with \<open>10^(n-1) \<le> x < 10^n\<close>, for a double \<open>x > 0\<close>.
\<close>

definition point10 :: "rat \<Rightarrow> int" where
  "point10 x = (let g = (ilog2 x * 30103) div 100000
                in if x < pow10 (g - 1) then g - 1 else if x < pow10 g then g
                   else if x < pow10 (g + 1) then g + 1 else g + 2)"

text \<open>The decimal of \<open>k\<close> digits next to \<open>x\<close> that reads back as \<open>x\<close>, if there is one.\<close>

definition candidates :: "rat \<Rightarrow> int \<Rightarrow> nat \<Rightarrow> int list" where
  "candidates x n k =
     (let u = pow10 (n - int k); lo = \<lfloor>x / u\<rfloor>;
          ok = filter (\<lambda>c. nearest_double (of_int c * u) = Num x) [lo, lo + 1]
      in if length ok = 2
         then (let d = x - of_int lo * u; d' = of_int (lo + 1) * u - x
               in if d < d' then [lo] else if d' < d then [lo + 1]
                  else if even lo then [lo] else [lo + 1])
         else ok)"

fun shortest :: "rat \<Rightarrow> int \<Rightarrow> nat \<Rightarrow> nat \<Rightarrow> int \<times> nat" where
  "shortest x n k 0 = (\<lfloor>x / pow10 (n - int k)\<rfloor>, k)"
| "shortest x n k (Suc fuel) =
     (case candidates x n k of
        c # cs \<Rightarrow> (c, k)
      | [] \<Rightarrow> shortest x n (Suc k) fuel)"

definition strip_zeros :: "string \<Rightarrow> string" where
  "strip_zeros s = rev (dropWhile (\<lambda>c. c = CHR ''0'') (rev s))"

definition positive_toString :: "rat \<Rightarrow> string" where
  "positive_toString x =
     (let n0 = point10 x; (c, k) = shortest x n0 1 17; full = dec c;
          n = n0 - int k + int (length full); ds = strip_zeros full; kk = int (length ds)
      in if kk \<le> n \<and> n \<le> 21 then ds @ replicate (nat (n - kk)) CHR ''0''
         else if 0 < n \<and> n \<le> 21 then take (nat n) ds @ ''.'' @ drop (nat n) ds
         else if - 6 < n \<and> n \<le> 0 then ''0.'' @ replicate (nat (- n)) CHR ''0'' @ ds
         else (if kk = 1 then ds else [hd ds] @ ''.'' @ tl ds) @ ''e'' @
              (if 0 \<le> n - 1 then ''+'' else ''-'') @ dec \<bar>n - 1\<bar>)"

definition Number_toString :: "number \<Rightarrow> string" where
  "Number_toString a =
     (case a of
        NaN \<Rightarrow> ''NaN''
      | PosInfinity \<Rightarrow> ''Infinity''
      | NegInfinity \<Rightarrow> ''-Infinity''
      | NegZero \<Rightarrow> ''0''
      | Num x \<Rightarrow> if x = 0 then ''0''
                 else if x < 0 then ''-'' @ positive_toString (- x)
                 else positive_toString x)"


text \<open>
  \<^verbatim>\<open>Number.prototype.toLocaleString()\<close> is the host's: what it prints depends on the
  locale. The functions that call it take the host's formatter as the parameter
  \<open>loc\<close>. \<open>grouped\<close> is one such formatter: it writes an integer with its digits in
  groups of three between commas, and any other number as its number string.
\<close>

fun group3 :: "string \<Rightarrow> string" where
  "group3 (a # b # c # d # rest) = a # b # c # CHR '','' # group3 (d # rest)"
| "group3 xs = xs"

definition grouped :: "number \<Rightarrow> string" where
  "grouped a =
     (case a of
        Num x \<Rightarrow> if x = of_int \<lfloor>x\<rfloor>
                 then (if x < 0 then ''-'' else []) @ rev (group3 (rev (dec \<bar>\<lfloor>x\<rfloor>\<bar>)))
                 else Number_toString a
      | _ \<Rightarrow> Number_toString a)"

section \<open>Data of the backend contract\<close>

record stats =
  total_complaints :: number
  silence_rate :: number
  avg_silence_score :: number
  avg_days_in_system :: number

text \<open>
  An object \<^verbatim>\<open>{label: {avg_silence}}\<close> of \<^verbatim>\<open>/demographic-silence\<close>, in key order
  (\<^verbatim>\<open>Object.keys\<close> keeps insertion order for these labels).
\<close>

type_synonym breakdown = "(string \<times> number) list"

record demographics =
  by_gender :: breakdown
  by_caste :: breakdown
  by_income :: breakdown

record category =
  cat_category :: string
  cat_silenced_pct :: number

text \<open>\<^verbatim>\<open>chart_data\<close> of a chat reply; \<^verbatim>\<open>title\<close>, \<^verbatim>\<open>type\<close> and \<^verbatim>\<open>label\<close> may be missing.\<close>

record chartData =
  cd_title :: "string option"
  cd_type :: "string option"
  cd_label :: "string option"
  cd_labels :: "string list"
  cd_values :: "number list"

record chat_reply =
  reply_session_id :: "string option"
  reply_response :: string
  reply_chart_data :: "chartData option"

record session =
  session_id :: string
  session_name :: "string option"

record message =
  msg_role :: string
  msg_content :: string

record searchResult =
  sr_id :: "string option"
  sr_silence_score :: number
  sr_text :: string
  sr_category :: string
  sr_gender :: string
  sr_income :: string
  sr_ward :: string

section \<open>The document\<close>

text \<open>
  What the script writes into an element, by \<^verbatim>\<open>textContent\<close>, \<^verbatim>\<open>innerHTML\<close> or
  \<^verbatim>\<open>appendChild\<close>, is kept as a list of nodes. A message keeps its role and its content
  (the optional markdown rendering by \<^verbatim>\<open>marked\<close> is presentation only); a typing
  indicator keeps the number it was created with, so that \<^verbatim>\<open>typingDiv.remove()\<close> removes
  that node and no other.
\<close>

datatype node =
    Text string
  | NativeText string
  | MessageDiv string string
  | TypingDiv nat
  | ClearedBanner
  | OptionEl string string
  | Spinner
  | NoResults
  | ErrorState string
  | ResultCard string string string string string string string string
  | Finding string

record element =
  eid :: string
  classList :: "string list"
  dataset_screen :: "string option"
  children :: "node list"
  display :: string
  val :: string
  checked :: bool

text \<open>The configuration object given to \<^verbatim>\<open>new Chart\<close>; fixed styling options are left out.\<close>

record chart_config =
  cfg_type :: string
  cfg_labels :: "string list"
  cfg_label :: "string option"
  cfg_data :: "number list"
  cfg_backgroundColor :: "string list"
  cfg_borderRadius :: nat
  cfg_tension :: number
  cfg_indexAxis :: string
  cfg_scales :: bool

text \<open>
  A Chart.js instance: the canvas it draws on, and whether \<^verbatim>\<open>destroy()\<close> was called.
  The state keeps the instances ever made, in \<open>charts\<close>, and in \<open>chart_history\<close> what
  \<open>charts\<close> was after each call of \<^verbatim>\<open>new Chart\<close> and of \<^verbatim>\<open>destroy()\<close>, in the order of the
  calls.
\<close>

record chart =
  canvas :: string
  config :: chart_config
  destroyed :: bool

text \<open>What an \<^verbatim>\<open>await\<close> or a timer is waiting for, with the locals the rest of the function reads.\<close>

datatype task =
    StatsFetch
  | OverviewFetch
  | DemographicsFetch
  | GeographyFetch
  | CategoriesFetch
  | TemporalFetch
  | ChatFetch nat string "string option"
  | SessionsFetch "(chat_reply \<times> nat) option"
  | HistoryFetch string
  | SearchFetch string "nat option"
  | Timeout string

record state =
  currentSession :: "string option"
  dynamicChart :: "nat option"
  overviewChart :: "nat option"
  genderChart :: "nat option"
  casteChart :: "nat option"
  incomeChart :: "nat option"
  categoryChart :: "nat option"
  temporalChart :: "nat option"
  charts :: "chart list"
  chart_history :: "chart list list"
  doc :: "element list"
  pending :: "task list"
  console :: "string list"
  alerts :: "string list"
  created :: nat

text \<open>
  A handler ends normally, or throws: \<open>Throw e st\<close> keeps the state reached when the
  exception was raised, which is what a \<^verbatim>\<open>catch\<close> block, or the page after an uncaught
  exception, goes on with.
\<close>

datatype completion = Normal state | Throw js_error state

definition and_then :: "completion \<Rightarrow> (state \<Rightarrow> completion) \<Rightarrow> completion" where
  "and_then c f = (case c of Normal st \<Rightarrow> f st | Throw e st \<Rightarrow> Throw e st)"

definition message_of :: "js_error \<Rightarrow> string" where
  "message_of e = (case e of TypeError m \<Rightarrow> m | Rejected m \<Rightarrow> m)"

subsection \<open>Element access\<close>

definition getElementById :: "element list \<Rightarrow> string \<Rightarrow> element option" where
  "getElementById d i = (if i = [] then None else find (\<lambda>e. eid e = i) d)"

fun update_first :: "('a \<Rightarrow> bool) \<Rightarrow> ('a \<Rightarrow> 'a) \<Rightarrow> 'a list \<Rightarrow> 'a list" where
  "update_first P f [] = []"
| "update_first P f (x # xs) = (if P x then f x # xs else x # update_first P f xs)"

definition modify :: "string \<Rightarrow> (element \<Rightarrow> element) \<Rightarrow> state \<Rightarrow> state" where
  "modify i f st =
     (if i = [] then st else st\<lparr>doc := update_first (\<lambda>e. eid e = i) f (doc st)\<rparr>)"

text \<open>
  \<^verbatim>\<open>document.getElementById(i).p = v\<close>: a TypeError when there is no such element.
\<close>

definition assign :: "string \<Rightarrow> (element \<Rightarrow> element) \<Rightarrow> state \<Rightarrow> completion" where
  "assign i f st =
     (case getElementById (doc st) i of
        None \<Rightarrow> Throw (TypeError (i @ '' is null'')) st
      | Some _ \<Rightarrow> Normal (modify i f st))"

definition set_children :: "node list \<Rightarrow> element \<Rightarrow> element" where
  "set_children ns e = e\<lparr>children := ns\<rparr>"

definition append_child :: "node \<Rightarrow> element \<Rightarrow> element" where
  "append_child n e = e\<lparr>children := children e @ [n]\<rparr>"

definition set_display :: "string \<Rightarrow> element \<Rightarrow> element" where
  "set_display v e = e\<lparr>display := v\<rparr>"

definition set_val :: "string \<Rightarrow> element \<Rightarrow> element" where
  "set_val v e = e\<lparr>val := v\<rparr>"

definition class_add :: "string \<Rightarrow> element \<Rightarrow> element" where
  "class_add c e =
     (if c \<in> set (classList e) then e else e\<lparr>classList := classList e @ [c]\<rparr>)"

definition class_remove :: "string \<Rightarrow> element \<Rightarrow> element" where
  "class_remove c e = e\<lparr>classList := removeAll c (classList e)\<rparr>"

definition has_class :: "string \<Rightarrow> element \<Rightarrow> bool" where
  "has_class c e = (c \<in> set (classList e))"

text \<open>\<^verbatim>\<open>node.remove()\<close>: the node leaves its parent, wherever it is; nothing happens when it is detached.\<close>

definition remove_node :: "node \<Rightarrow> state \<Rightarrow> state" where
  "remove_node n st =
     st\<lparr>doc := map (\<lambda>e. e\<lparr>children := removeAll n (children e)\<rparr>) (doc st)\<rparr>"

definition fetch :: "task \<Rightarrow> state \<Rightarrow> state" where
  "fetch t st = st\<lparr>pending := pending st @ [t]\<rparr>"

definition console_error :: "string \<Rightarrow> js_error \<Rightarrow> state \<Rightarrow> state" where
  "console_error tag e st = st\<lparr>console := console st @ [tag @ message_of e]\<rparr>"

text \<open>
  \<^verbatim>\<open>try { body } catch (error) { console.error(tag, error) }\<close> around the whole body of a
  loader: the loader itself never throws.
\<close>

definition logged :: "string \<Rightarrow> completion \<Rightarrow> completion" where
  "logged tag c = (case c of Normal st \<Rightarrow> Normal st | Throw e st \<Rightarrow> Normal (console_error tag e st))"

subsection \<open>Chart.js\<close>

definition destroy :: "nat \<Rightarrow> state \<Rightarrow> state" where
  "destroy h st =
     st\<lparr>charts := (charts st)[h := (charts st ! h)\<lparr>destroyed := True\<rparr>],
        chart_history := chart_history st @ [(charts st)[h := (charts st ! h)\<lparr>destroyed := True\<rparr>]]\<rparr>"

definition destroy_if :: "nat option \<Rightarrow> state \<Rightarrow> state" where
  "destroy_if r st = (case r of None \<Rightarrow> st | Some h \<Rightarrow> destroy h st)"

definition new_Chart :: "string \<Rightarrow> chart_config \<Rightarrow> state \<Rightarrow> state" where
  "new_Chart c cfg st =
     st\<lparr>charts := charts st @ [\<lparr>canvas = c, config = cfg, destroyed = False\<rparr>],
        chart_history := chart_history st @
          [charts st @ [\<lparr>canvas = c, config = cfg, destroyed = False\<rparr>]]\<rparr>"

text \<open>The live instances that draw on a canvas.\<close>

definition live_in :: "string \<Rightarrow> chart list \<Rightarrow> chart list" where
  "live_in c cs = filter (\<lambda>ch. canvas ch = c \<and> \<not> destroyed ch) cs"

definition live_on :: "string \<Rightarrow> state \<Rightarrow> chart list" where
  "live_on c st = live_in c (charts st)"

text \<open>At no point of a stretch of the history do two live instances draw on the canvas.\<close>

definition never_shared :: "string \<Rightarrow> chart list list \<Rightarrow> bool" where
  "never_shared c H = list_all (\<lambda>cs. length (live_in c cs) \<le> 1) H"

text \<open>
  Chart.js, in the version 3 and later that the options of the script are written for
  (\<^verbatim>\<open>plugins.legend\<close>, \<^verbatim>\<open>indexAxis\<close>, \<^verbatim>\<open>scales.x\<close>), reads an array given as the colour of
  the elements of a dataset cyclically: the element at position \<open>i\<close> is drawn in the
  entry at \<open>i\<close> modulo the length of the array.
\<close>

definition element_color :: "chart_config \<Rightarrow> nat \<Rightarrow> string option" where
  "element_color cfg i =
     (if cfg_backgroundColor cfg = [] then None
      else Some (cfg_backgroundColor cfg ! (i mod length (cfg_backgroundColor cfg))))"

definition set_text :: "string \<Rightarrow> element \<Rightarrow> element" where
  "set_text s e = e\<lparr>children := [Text s]\<rparr>"

fun seq :: "(state \<Rightarrow> completion) list \<Rightarrow> state \<Rightarrow> completion" where
  "seq [] st = Normal st"
| "seq (f # fs) st = and_then (f st) (seq fs)"

text \<open>The page goes on after a handler, whether it ended normally or threw.\<close>

definition after :: "completion \<Rightarrow> state" where
  "after c = (case c of Normal st \<Rightarrow> st | Throw e st \<Rightarrow> st)"

section \<open>Dynamic chart\<close>

definition palette :: "string list" where
  "palette = [''#00d4ff'', ''#ffb700'', ''#ff6b6b'', ''#00ff88'', ''#a855f7'', ''#ec4899'']"

definition dynamic_config :: "chartData \<Rightarrow> chart_config" where
  "dynamic_config chartData =
     \<lparr>cfg_type = or_else (cd_type chartData) ''bar'',
      cfg_labels = cd_labels chartData,
      cfg_label = Some (or_else (cd_label chartData) ''Value''),
      cfg_data = cd_values chartData,
      cfg_backgroundColor = slice0 (length (cd_labels chartData)) palette,
      cfg_borderRadius = (if cd_type chartData = Some ''bar'' then 2 else 0),
      cfg_tension = (if cd_type chartData = Some ''line'' then nearest_double (4 / 10) else Num 0),
      cfg_indexAxis = ''x'',
      cfg_scales = (cd_type chartData \<noteq> Some ''pie'' \<and> cd_type chartData \<noteq> Some ''doughnut'')\<rparr>"

definition renderDynamicChart :: "chartData \<Rightarrow> state \<Rightarrow> completion" where
  "renderDynamicChart chartData st =
     (if getElementById (doc st) ''chartPanel'' = None \<or>
         getElementById (doc st) ''dynamicChart'' = None
      then Normal st
      else and_then
        (assign ''chartTitle'' (set_text (or_else (cd_title chartData) ''Analysis Chart''))
           (modify ''chartPanel'' (set_display ''flex'') st))
        (\<lambda>st1. let st2 = destroy_if (dynamicChart st1) st1
               in Normal ((new_Chart ''dynamicChart'' (dynamic_config chartData) st2)
                    \<lparr>dynamicChart := Some (length (charts st2))\<rparr>)))"

definition closeChart :: "state \<Rightarrow> state" where
  "closeChart st =
     (let st1 = modify ''chartPanel'' (set_display ''none'') st
      in case dynamicChart st1 of
           None \<Rightarrow> st1
         | Some h \<Rightarrow> (destroy h st1)\<lparr>dynamicChart := None\<rparr>)"

section \<open>Dashboard\<close>

definition fixed_config :: "string \<Rightarrow> string list \<Rightarrow> string option \<Rightarrow> number list \<Rightarrow> string list \<Rightarrow> string \<Rightarrow> chart_config" where
  "fixed_config ty labels label values colors axis =
     \<lparr>cfg_type = ty, cfg_labels = labels, cfg_label = label, cfg_data = values,
      cfg_backgroundColor = colors, cfg_borderRadius = 2, cfg_tension = Num 0,
      cfg_indexAxis = axis, cfg_scales = True\<rparr>"

definition loadOverviewChart :: "state \<Rightarrow> state" where
  "loadOverviewChart st = fetch OverviewFetch st"

definition loadOverviewChart_response :: "demographics response \<Rightarrow> state \<Rightarrow> completion" where
  "loadOverviewChart_response r st =
     logged ''Overview chart error: ''
       (case r of
          NetworkFailure m \<Rightarrow> Throw (Rejected m) st
        | BackendError m \<Rightarrow> Normal st
        | Success data \<Rightarrow>
            (case getElementById (doc st) ''overviewChart'' of
               None \<Rightarrow> Normal st
             | Some ctx \<Rightarrow>
                 let st1 = destroy_if (overviewChart st) st;
                     labels = [''0-3L'', ''3-6L'', ''6-10L'', ''10L+''];
                     scores = map (\<lambda>l. case map_of (by_income data) l of
                                          None \<Rightarrow> Num 0 | Some v \<Rightarrow> or_zero v) labels
                 in Normal ((new_Chart ''overviewChart''
                       (fixed_config ''bar'' labels (Some ''Avg Silence Score'') scores
                          [''#ff6b6b'', ''#ffb700'', ''#00d4ff'', ''#00ff88''] ''x'') st1)
                     \<lparr>overviewChart := Some (length (charts st1))\<rparr>)))"

definition loadDashboard :: "state \<Rightarrow> state" where
  "loadDashboard st = fetch StatsFetch st"

definition silenced_of :: "stats \<Rightarrow> number" where
  "silenced_of data =
     Math_round (Number_divide (Number_multiply (total_complaints data) (silence_rate data))
                   (Num 100))"

definition alert_text :: "(number \<Rightarrow> string) \<Rightarrow> stats \<Rightarrow> string" where
  "alert_text loc data =
     Number_toString (silence_rate data) @ ''% of complaints ('' @ loc (silenced_of data) @
     '' cases) are being systematically ignored''"

definition loadDashboard_response :: "(number \<Rightarrow> string) \<Rightarrow> stats response \<Rightarrow> state \<Rightarrow> completion" where
  "loadDashboard_response loc r st =
     logged ''Dashboard error: ''
       (case r of
          NetworkFailure m \<Rightarrow> Throw (Rejected m) st
        | BackendError m \<Rightarrow> Normal st
        | Success data \<Rightarrow>
            seq [assign ''totalCases'' (set_text (loc (total_complaints data))),
                 assign ''headerCases'' (set_text (loc (total_complaints data))),
                 assign ''silencedCount'' (set_text (loc (silenced_of data))),
                 assign ''silenceRate'' (set_text (Number_toString (silence_rate data) @ ''%'')),
                 assign ''headerSilenced'' (set_text (loc (silenced_of data))),
                 assign ''avgScore'' (set_text (Number_toString (avg_silence_score data))),
                 assign ''avgDays'' (set_text (Number_toString (Math_round (avg_days_in_system data)))),
                 assign ''alertText'' (set_text (alert_text loc data)),
                 (\<lambda>st. Normal (loadOverviewChart st))] st)"

section \<open>Demographics\<close>

definition demo_colors :: "string \<Rightarrow> string list" where
  "demo_colors ty =
     (case map_of [(''gender'', [''#ff6b6b'', ''#00d4ff'', ''#ffb700'']),
                   (''caste'', [''#00ff88'', ''#ffb700'', ''#ff6b6b'', ''#a855f7'']),
                   (''income'', [''#ff6b6b'', ''#ffb700'', ''#00d4ff'', ''#00ff88''])] ty of
        None \<Rightarrow> [''#00d4ff'']
      | Some cs \<Rightarrow> cs)"

definition createDemoChart ::
    "string \<Rightarrow> breakdown \<Rightarrow> string \<Rightarrow> nat option \<Rightarrow> (nat \<Rightarrow> state \<Rightarrow> state) \<Rightarrow> state \<Rightarrow> state" where
  "createDemoChart canvasId data ty chartRef setChart st =
     (case getElementById (doc st) canvasId of
        None \<Rightarrow> st
      | Some ctx \<Rightarrow>
          let st1 = destroy_if chartRef st
          in setChart (length (charts st1))
               (new_Chart canvasId
                  (fixed_config ''bar'' (map fst data) None (map snd data) (demo_colors ty) ''x'')
                  st1))"

definition loadDemographics :: "state \<Rightarrow> state" where
  "loadDemographics st = fetch DemographicsFetch st"





section \<open>Categories\<close>

definition loadCategories :: "state \<Rightarrow> state" where
  "loadCategories st = fetch CategoriesFetch st"

definition category_findings :: "category \<Rightarrow> category \<Rightarrow> node list" where
  "category_findings most least =
     [Finding (cat_category most @ '' complaints are most ignored ('' @
               Number_toString (cat_silenced_pct most) @ ''% silenced)''),
      Finding (cat_category least @ '' complaints are least ignored ('' @
               Number_toString (cat_silenced_pct least) @ ''% silenced)''),
      Finding ''Critical infrastructure issues face systematic deprioritization'']"

definition loadCategories_response :: "category list response \<Rightarrow> state \<Rightarrow> completion" where
  "loadCategories_response r st =
     logged ''Categories error: ''
       (case r of
          NetworkFailure m \<Rightarrow> Throw (Rejected m) st
        | BackendError m \<Rightarrow> Normal st
        | Success categories \<Rightarrow>
           (let st1 =
                  (case getElementById (doc st) ''categoryChart'' of
                     None \<Rightarrow> st
                   | Some ctx \<Rightarrow>
                       let st0 = destroy_if (categoryChart st) st
                       in (new_Chart ''categoryChart''
                             (fixed_config ''bar'' (map cat_category categories) (Some ''Silenced %'')
                                (map cat_silenced_pct categories) [''#ff6b6b''] ''y'') st0)
                          \<lparr>categoryChart := Some (length (charts st0))\<rparr>)
            in case getElementById (doc st1) ''catFindings'' of
                 None \<Rightarrow> Normal st1
               | Some findings \<Rightarrow>
                   (case categories of
                      [] \<Rightarrow> Throw (TypeError ''most is undefined'') st1
                    | most # rest \<Rightarrow>
                        Normal (modify ''catFindings''
                          (set_children (category_findings most (last categories))) st1))))"

text \<open>The geography and temporal loaders: only the request they start with is needed here.\<close>

definition loadGeography :: "state \<Rightarrow> state" where
  "loadGeography st = fetch GeographyFetch st"

definition loadTemporal :: "state \<Rightarrow> state" where
  "loadTemporal st = fetch TemporalFetch st"


section \<open>Navigation\<close>

definition pageNames :: "(string \<times> string) list" where
  "pageNames =
     [(''dashboard'', ''Command Center''),
      (''chat'', ''AI Analysis''),
      (''search'', ''Case Search''),
      (''demographics'', ''Demographics''),
      (''geography'', ''Geographic Analysis''),
      (''categories'', ''Category Analysis''),
      (''temporal'', ''Temporal Analysis''),
      (''report'', ''Full Report'')]"

text \<open>
  \<^verbatim>\<open>pageNames[screenId]\<close> on an object literal also finds what every object inherits; the
  text such a value is shown as is the host's.
\<close>

definition Object_prototype_names :: "string list" where
  "Object_prototype_names =
     [''constructor'', ''__proto__'', ''hasOwnProperty'', ''isPrototypeOf'',
      ''propertyIsEnumerable'', ''toLocaleString'', ''toString'', ''valueOf'',
      ''__defineGetter__'', ''__defineSetter__'', ''__lookupGetter__'', ''__lookupSetter__'']"

text \<open>\<^verbatim>\<open>pageNames[screenId] || screenId\<close>, as the children \<^verbatim>\<open>textContent\<close> leaves.\<close>

definition page_title :: "string option \<Rightarrow> node list" where
  "page_title screenId =
     (case screenId of
        None \<Rightarrow> [Text []]
      | Some s \<Rightarrow>
          (case map_of pageNames s of
             Some t \<Rightarrow> [Text t]
           | None \<Rightarrow> if s \<in> set Object_prototype_names then [NativeText s] else [Text s]))"

definition loadScreenData :: "string option \<Rightarrow> state \<Rightarrow> state" where
  "loadScreenData screenId st =
     (if screenId = Some ''dashboard'' then loadDashboard st
      else if screenId = Some ''demographics'' then loadDemographics st
      else if screenId = Some ''geography'' then loadGeography st
      else if screenId = Some ''categories'' then loadCategories st
      else if screenId = Some ''temporal'' then loadTemporal st
      else st)"

text \<open>The argument of \<^verbatim>\<open>getElementById\<close> as a string.\<close>

definition id_string :: "string option \<Rightarrow> string" where
  "id_string x = (case x of None \<Rightarrow> ''undefined'' | Some s \<Rightarrow> s)"

text \<open>
  The click handler that \<open>initNavigation\<close> attaches to each \<^verbatim>\<open>.nav-item\<close>; \<open>k\<close> is the
  position of the clicked item in the document. The script changes no class but
  \<^verbatim>\<open>active\<close> and \<^verbatim>\<open>open\<close>, so the node lists taken at start-up are the elements that have
  the class now.
\<close>

definition nav_click :: "nat \<Rightarrow> state \<Rightarrow> completion" where
  "nav_click k st =
     (let screenId = dataset_screen (doc st ! k);
          d1 = map (\<lambda>e. if has_class ''nav-item'' e then class_remove ''active'' e else e) (doc st);
          d2 = d1[k := class_add ''active'' (d1 ! k)];
          d3 = map (\<lambda>e. if has_class ''screen'' e then class_remove ''active'' e else e) d2;
          st3 = modify (id_string screenId) (class_add ''active'') (st\<lparr>doc := d3\<rparr>)
      in and_then (assign ''pageTitle'' (set_children (page_title screenId)) st3)
           (\<lambda>st4. let st5 = loadScreenData screenId st4
                  in Normal (st5\<lparr>doc := update_first (has_class ''sidebar'')
                                          (class_remove ''open'') (doc st5)\<rparr>)))"



section \<open>Chat\<close>

definition addMessageToChat :: "string \<Rightarrow> string \<Rightarrow> state \<Rightarrow> completion" where
  "addMessageToChat role content st =
     assign ''chatMessages'' (append_child (MessageDiv role content)) st"

definition loadSessions :: "(chat_reply \<times> nat) option \<Rightarrow> state \<Rightarrow> state" where
  "loadSessions resume st = fetch (SessionsFetch resume) st"

definition session_option :: "session \<Rightarrow> node" where
  "session_option s =
     OptionEl (session_id s)
       (or_else (session_name s) (''Session '' @ slice0 8 (session_id s)))"

definition loadSessions_response :: "session list response \<Rightarrow> state \<Rightarrow> completion" where
  "loadSessions_response r st =
     logged ''Load sessions error: ''
       (case r of
          NetworkFailure m \<Rightarrow> Throw (Rejected m) st
        | BackendError m \<Rightarrow> Normal st
        | Success sessions \<Rightarrow>
            (case getElementById (doc st) ''sessionSelect'' of
               None \<Rightarrow> Normal st
             | Some select \<Rightarrow>
                 Normal (modify ''sessionSelect''
                   (set_children (OptionEl [] ''New Investigation'' # map session_option sessions))
                   st)))"

definition loadSessionHistory :: "string \<Rightarrow> state \<Rightarrow> state" where
  "loadSessionHistory sessionId st = fetch (HistoryFetch sessionId) st"

fun add_messages :: "message list \<Rightarrow> state \<Rightarrow> completion" where
  "add_messages [] st = Normal st"
| "add_messages (m # ms) st =
     and_then (addMessageToChat (msg_role m) (msg_content m) st) (add_messages ms)"

definition loadSessionHistory_response :: "string \<Rightarrow> message list response \<Rightarrow> state \<Rightarrow> completion" where
  "loadSessionHistory_response sessionId r st =
     logged ''Load history error: ''
       (case r of
          NetworkFailure m \<Rightarrow> Throw (Rejected m) st
        | BackendError m \<Rightarrow> Normal st
        | Success messages \<Rightarrow>
            and_then (assign ''chatMessages'' (set_children []) (st\<lparr>currentSession := Some sessionId\<rparr>))
              (add_messages messages))"

text \<open>
  \<open>sendChatMessage\<close> up to its \<^verbatim>\<open>await fetch\<close>: everything before the \<^verbatim>\<open>try\<close> can throw out
  of the function. The request carries \<open>currentSession\<close> as it is now; the typing
  indicator is the local the rest of the function removes.
\<close>

definition sendChatMessage :: "string \<Rightarrow> state \<Rightarrow> completion" where
  "sendChatMessage message st =
     and_then (addMessageToChat ''user'' message (modify ''chatInput'' (set_val []) st))
       (\<lambda>st1. and_then
          (assign ''chatMessages'' (append_child (TypingDiv (created st1)))
             (st1\<lparr>created := Suc (created st1)\<rparr>))
          (\<lambda>st2. Normal (fetch (ChatFetch (created st1) message (currentSession st2)) st2)))"

text \<open>The \<^verbatim>\<open>catch\<close> block of \<open>sendChatMessage\<close>.\<close>

definition chat_catch :: "nat \<Rightarrow> completion \<Rightarrow> completion" where
  "chat_catch typingDiv c =
     (case c of
        Normal st \<Rightarrow> Normal st
      | Throw e st \<Rightarrow>
          addMessageToChat ''assistant'' (''Connection error: '' @ message_of e)
            (remove_node (TypingDiv typingDiv) st))"

text \<open>What \<open>sendChatMessage\<close> does with a successful reply once the session is settled.\<close>

definition chat_tail :: "chat_reply \<Rightarrow> state \<Rightarrow> completion" where
  "chat_tail data st =
     and_then (addMessageToChat ''assistant'' (reply_response data) st)
       (\<lambda>st1. case reply_chart_data data of
                None \<Rightarrow> Normal st1
              | Some chartData \<Rightarrow> renderDynamicChart chartData st1)"

definition sendChatMessage_response :: "nat \<Rightarrow> chat_reply response \<Rightarrow> state \<Rightarrow> completion" where
  "sendChatMessage_response typingDiv r st =
     chat_catch typingDiv
       (case r of
          NetworkFailure m \<Rightarrow> Throw (Rejected m) st
        | BackendError m \<Rightarrow>
            addMessageToChat ''assistant'' (''Error: '' @ m) (remove_node (TypingDiv typingDiv) st)
        | Success data \<Rightarrow>
            (let st1 = remove_node (TypingDiv typingDiv) st
             in if truthy (reply_session_id data) \<and> \<not> truthy (currentSession st1)
                then Normal (loadSessions (Some (data, typingDiv))
                               (st1\<lparr>currentSession := reply_session_id data\<rparr>))
                else chat_tail data st1))"

text \<open>
  The reply to \<^verbatim>\<open>/chat/sessions\<close>: \<open>loadSessions\<close> finishes, and a \<open>sendChatMessage\<close> that
  awaited it goes on, still inside its \<^verbatim>\<open>try\<close>.
\<close>

definition sessions_settled ::
    "(chat_reply \<times> nat) option \<Rightarrow> session list response \<Rightarrow> state \<Rightarrow> completion" where
  "sessions_settled resume r st =
     and_then (loadSessions_response r st)
       (\<lambda>st1. case resume of
                None \<Rightarrow> Normal st1
              | Some (data, typingDiv) \<Rightarrow> chat_catch typingDiv (chat_tail data st1))"

definition sendSuggestion :: "string \<Rightarrow> state \<Rightarrow> completion" where
  "sendSuggestion query st = sendChatMessage query st"

text \<open>The handlers of \<open>initChat\<close>.\<close>

definition sendBtn_click :: "state \<Rightarrow> completion" where
  "sendBtn_click st =
     (case getElementById (doc st) ''chatInput'' of
        None \<Rightarrow> Normal st
      | Some chatInput \<Rightarrow>
          if trim (val chatInput) \<noteq> [] then sendChatMessage (trim (val chatInput)) st
          else Normal st)"

definition chatInput_keypress :: "string \<Rightarrow> bool \<Rightarrow> state \<Rightarrow> completion" where
  "chatInput_keypress key shiftKey st =
     (if key = ''Enter'' \<and> \<not> shiftKey
      then (case getElementById (doc st) ''chatInput'' of
              None \<Rightarrow> Normal st
            | Some chatInput \<Rightarrow>
                if trim (val chatInput) \<noteq> [] then sendChatMessage (trim (val chatInput)) st
                else Normal st)
      else Normal st)"

definition clearChatBtn_click :: "state \<Rightarrow> completion" where
  "clearChatBtn_click st = assign ''chatMessages'' (set_children [ClearedBanner]) st"

definition sessionSelect_change :: "string \<Rightarrow> state \<Rightarrow> state" where
  "sessionSelect_change sessionId st =
     (if sessionId \<noteq> [] then loadSessionHistory sessionId st
      else st\<lparr>currentSession := None\<rparr>)"

text \<open>
  \<open>quickAnalysis\<close>: a click on the first element with \<^verbatim>\<open>data-screen="chat"\<close> (its handler runs
  at once, and an exception in it does not reach the caller), then a timer whose
  callback is \<open>sendChatMessage query\<close>.
\<close>

fun find_index_of :: "('a \<Rightarrow> bool) \<Rightarrow> 'a list \<Rightarrow> nat option" where
  "find_index_of P [] = None"
| "find_index_of P (x # xs) =
     (if P x then Some 0 else map_option Suc (find_index_of P xs))"

text \<open>The position of the element that \<^verbatim>\<open>getElementById\<close> finds.\<close>

definition index_of_id :: "element list \<Rightarrow> string \<Rightarrow> nat option" where
  "index_of_id d i = (if i = [] then None else find_index_of (\<lambda>e. eid e = i) d)"

definition quickAnalysis :: "string \<Rightarrow> state \<Rightarrow> state" where
  "quickAnalysis query st =
     (let st1 = (case find_index_of (\<lambda>e. dataset_screen e = Some ''chat'') (doc st) of
                   None \<Rightarrow> st
                 | Some k \<Rightarrow> if has_class ''nav-item'' (doc st ! k) then after (nav_click k st)
                             else st)
      in fetch (Timeout query) st1)"

definition quickAnalysis_timeout :: "string \<Rightarrow> state \<Rightarrow> completion" where
  "quickAnalysis_timeout query st = sendChatMessage query st"

section \<open>Search\<close>

text \<open>
  The body of the results panel (\<^verbatim>\<open>.panel-body\<close> inside \<^verbatim>\<open>searchResults\<close>) is kept as the
  children of \<^verbatim>\<open>searchResults\<close>.
\<close>

definition performSearch :: "state \<Rightarrow> completion" where
  "performSearch st =
     (let query = map_option (\<lambda>e. trim (val e)) (getElementById (doc st) ''searchInput'');
          silencedOnly = (case getElementById (doc st) ''silencedOnly'' of
                            None \<Rightarrow> False | Some e \<Rightarrow> checked e)
      in if \<not> truthy query
         then Normal (st\<lparr>alerts := alerts st @ [''Please enter a search query'']\<rparr>)
         else and_then (assign ''searchResults'' (set_children [Spinner]) st)
                (\<lambda>st1. Normal (fetch (SearchFetch (id_string query)
                                        (if silencedOnly then Some 70 else None)) st1)))"

definition result_card :: "searchResult \<Rightarrow> node" where
  "result_card r =
     ResultCard (or_else (sr_id r) ''N/A'')
       (if at_least (sr_silence_score r) 70 then ''high''
        else if at_least (sr_silence_score r) 50 then ''medium'' else ''low'')
       (Number_toString (sr_silence_score r))
       (sr_text r) (sr_category r) (sr_gender r) (sr_income r) (sr_ward r)"

definition search_catch :: "completion \<Rightarrow> completion" where
  "search_catch c =
     (case c of
        Normal st \<Rightarrow> Normal st
      | Throw e st \<Rightarrow> assign ''searchResults'' (set_children [ErrorState (message_of e)]) st)"

definition performSearch_response :: "searchResult list response \<Rightarrow> state \<Rightarrow> completion" where
  "performSearch_response r st =
     search_catch
       (case r of
          NetworkFailure m \<Rightarrow> Throw (Rejected m) st
        | BackendError m \<Rightarrow> Normal st
        | Success results \<Rightarrow>
            if results = [] then assign ''searchResults'' (set_children [NoResults]) st
            else assign ''searchResults'' (set_children (map result_card results)) st)"

section \<open>The event loop of the chat\<close>

text \<open>
  What can happen to the chat, one event at a time: the user acts, or the response to
  the pending request at a position arrives. A response for a position that holds no
  such request does not occur and changes nothing.
\<close>

datatype event =
    TypeText string
  | SendClick
  | EnterKey
  | Suggest string
  | SessionChange string
  | ChatResponse nat "chat_reply response"
  | SessionsResponse nat "session list response"
  | HistoryResponse nat "message list response"

definition settle :: "nat \<Rightarrow> state \<Rightarrow> state" where
  "settle i st = st\<lparr>pending := take i (pending st) @ drop (Suc i) (pending st)\<rparr>"

definition step :: "event \<Rightarrow> state \<Rightarrow> completion" where
  "step ev st =
     (case ev of
        TypeText s \<Rightarrow> Normal (modify ''chatInput'' (set_val s) st)
      | SendClick \<Rightarrow> sendBtn_click st
      | EnterKey \<Rightarrow> chatInput_keypress ''Enter'' False st
      | Suggest query \<Rightarrow> sendSuggestion query st
      | SessionChange v \<Rightarrow> Normal (sessionSelect_change v st)
      | ChatResponse i r \<Rightarrow>
          (if i < length (pending st)
           then (case pending st ! i of
                   ChatFetch typingDiv message sid \<Rightarrow>
                     sendChatMessage_response typingDiv r (settle i st)
                 | _ \<Rightarrow> Normal st)
           else Normal st)
      | SessionsResponse i r \<Rightarrow>
          (if i < length (pending st)
           then (case pending st ! i of
                   SessionsFetch resume \<Rightarrow> sessions_settled resume r (settle i st)
                 | _ \<Rightarrow> Normal st)
           else Normal st)
      | HistoryResponse i r \<Rightarrow>
          (if i < length (pending st)
           then (case pending st ! i of
                   HistoryFetch sessionId \<Rightarrow> loadSessionHistory_response sessionId r (settle i st)
                 | _ \<Rightarrow> Normal st)
           else Normal st))"

fun run :: "event list \<Rightarrow> state \<Rightarrow> state" where
  "run [] st = st"
| "run (ev # evs) st = run evs (after (step ev st))"

text \<open>The chat requests in flight, the visible transcript, and the session ids sent.\<close>

definition is_chat_request :: "task \<Rightarrow> bool" where
  "is_chat_request t = (case t of ChatFetch n m s \<Rightarrow> True | _ \<Rightarrow> False)"

definition chat_in_flight :: "state \<Rightarrow> task list" where
  "chat_in_flight st = filter is_chat_request (pending st)"

definition content :: "state \<Rightarrow> string \<Rightarrow> node list" where
  "content st i = (case getElementById (doc st) i of None \<Rightarrow> [] | Some e \<Rightarrow> children e)"

definition transcript :: "state \<Rightarrow> node list" where
  "transcript st = content st ''chatMessages''"

definition is_reply :: "event \<Rightarrow> bool" where
  "is_reply ev = (case ev of ChatResponse i r \<Rightarrow> True | SessionsResponse i r \<Rightarrow> True | _ \<Rightarrow> False)"

section \<open>Slots\<close>

text \<open>
  A slot is a canvas and the global variable that holds its chart. The slot is in order
  when the variable is empty and nothing live draws on the canvas, or the variable
  holds the one live instance on the canvas.
\<close>

definition slot_ok :: "string \<Rightarrow> nat option \<Rightarrow> state \<Rightarrow> bool" where
  "slot_ok c v st =
     (case v of
        None \<Rightarrow> live_on c st = []
      | Some h \<Rightarrow> h < length (charts st) \<and> live_on c st = [charts st ! h])"

section \<open>A page to start from\<close>

definition blank :: "string \<Rightarrow> string list \<Rightarrow> string option \<Rightarrow> element" where
  "blank i cs ds = \<lparr>eid = i, classList = cs, dataset_screen = ds, children = [],
                    display = [], val = [], checked = False\<rparr>"

definition page :: "element list \<Rightarrow> state" where
  "page d = \<lparr>currentSession = None, dynamicChart = None, overviewChart = None,
             genderChart = None, casteChart = None, incomeChart = None,
             categoryChart = None, temporalChart = None, charts = [], chart_history = [],
             doc = d,
             pending = [], console = [], alerts = [], created = 0\<rparr>"


definition dashboard_ids :: "string list" where
  "dashboard_ids = [''totalCases'', ''headerCases'', ''silencedCount'', ''silenceRate'',
                    ''headerSilenced'', ''avgScore'', ''avgDays'', ''alertText'']"

definition dashboard_page :: state where
  "dashboard_page = page (map (\<lambda>i. blank i [] None) dashboard_ids)"

definition scenario_stats :: stats where
  "scenario_stats = \<lparr>total_complaints = Num 10000, silence_rate = Num (85 / 2),
                      avg_silence_score = Num 61,
                      avg_days_in_system = nearest_double (378 / 10)\<rparr>"

text \<open>Two payloads whose product or rate is not a binary fraction.\<close>

definition rounding_stats :: stats where
  "rounding_stats = \<lparr>total_complaints = Num 1000, silence_rate = nearest_double (1615 / 100),
                       avg_silence_score = Num 61, avg_days_in_system = Num 30\<rparr>"

definition rounded_product_stats :: stats where
  "rounded_product_stats = \<lparr>total_complaints = Num 250, silence_rate = nearest_double (6 / 10),
                              avg_silence_score = Num 61, avg_days_in_system = Num 30\<rparr>"

definition chat_page :: state where
  "chat_page = page [blank ''chatInput'' [] None, blank ''chatMessages'' [] None,
                     blank ''sessionSelect'' [] None]"

definition categories_page :: state where
  "categories_page =
     page [blank ''categoryChart'' [] None,
           (blank ''catFindings'' [] None)\<lparr>children := [Finding ''an earlier finding'']\<rparr>]"

definition panel_only_page :: state where
  "panel_only_page = page [blank ''chartPanel'' [] None]"

definition example_chart :: chartData where
  "example_chart = \<lparr>cd_title = Some ''By ward'', cd_type = Some ''pie'', cd_label = None,
                     cd_labels = [''A'', ''B''], cd_values = [Num 1, Num 2]\<rparr>"


definition typed_blank :: state where
  "typed_blank = modify ''chatInput'' (set_val ''   '') chat_page"

definition seven :: chartData where
  "seven = \<lparr>cd_title = None, cd_type = None, cd_label = None,
             cd_labels = [''a'', ''b'', ''c'', ''d'', ''e'', ''f'', ''g''],
             cd_values = [Num 1, Num 2, Num 3, Num 4, Num 5, Num 6, Num 7]\<rparr>"

definition search_page :: state where
  "search_page = page [blank ''searchInput'' [] None, blank ''silencedOnly'' [] None,
                       (blank ''searchResults'' [] None)\<lparr>children := [Spinner]\<rparr>]"

definition waiting_page :: state where
  "waiting_page = after (sendSuggestion ''hello'' chat_page)"

definition two_sends :: "event list" where
  "two_sends = [TypeText ''first'', SendClick, TypeText ''second'', SendClick]"

definition reply_A :: chat_reply where
  "reply_A = \<lparr>reply_session_id = Some ''A'', reply_response = ''answer for A'',
              reply_chart_data = None\<rparr>"

definition reply_B :: chat_reply where
  "reply_B = \<lparr>reply_session_id = Some ''B'', reply_response = ''answer for B'',
              reply_chart_data = None\<rparr>"

definition stale_trace :: "event list" where
  "stale_trace =
     [SessionChange ''A'', HistoryResponse 0 (Success []),
      TypeText ''question'', SendClick,
      SessionChange ''B'',
      HistoryResponse 1 (Success [\<lparr>msg_role = ''user'', msg_content = ''asked in B''\<rparr>])]"

definition late_reply :: event where
  "late_reply = ChatResponse 0 (Success reply_A)"

definition chart_page :: state where
  "chart_page =
     page (map (\<lambda>i. blank i [] None)
       [''chartPanel'', ''chartTitle'', ''dynamicChart'', ''genderChart'', ''casteChart'',
        ''incomeChart'', ''demoFindings''])"



section \<open>Facts about the document\<close>

lemma find_update_first:
  assumes "\<And>e. eid (f e) = eid e"
  shows "find (\<lambda>e. eid e = j) (update_first (\<lambda>e. eid e = i) f d) =
         (if i = j then map_option f (find (\<lambda>e. eid e = j) d) else find (\<lambda>e. eid e = j) d)"
  by (induction d) (auto simp: assms)

lemma getElementById_modify:
  assumes "\<And>e. eid (f e) = eid e"
  shows "getElementById (doc (modify i f st)) j =
         (if i = j then map_option f (getElementById (doc st) j) else getElementById (doc st) j)"
  using find_update_first [of f j i "doc st", OF assms]
  by (auto simp: getElementById_def modify_def)

lemma eid_set_text [simp]: "eid (set_text s e) = eid e"
  by (simp add: set_text_def)

lemma eid_set_children [simp]: "eid (set_children ns e) = eid e"
  by (simp add: set_children_def)

lemma eid_append_child [simp]: "eid (append_child n e) = eid e"
  by (simp add: append_child_def)

lemma eid_set_display [simp]: "eid (set_display v e) = eid e"
  by (simp add: set_display_def)

lemma eid_set_val [simp]: "eid (set_val v e) = eid e"
  by (simp add: set_val_def)

lemma eid_class_add [simp]: "eid (class_add c e) = eid e"
  by (simp add: class_add_def)

lemma eid_class_remove [simp]: "eid (class_remove c e) = eid e"
  by (simp add: class_remove_def)

lemma modify_fields [simp]:
  "charts (modify i f st) = charts st" "pending (modify i f st) = pending st"
  "console (modify i f st) = console st" "alerts (modify i f st) = alerts st"
  "currentSession (modify i f st) = currentSession st" "created (modify i f st) = created st"
  "dynamicChart (modify i f st) = dynamicChart st"
  by (simp_all add: modify_def)

lemma assign_present:
  "getElementById (doc st) i \<noteq> None \<Longrightarrow> assign i f st = Normal (modify i f st)"
  by (auto simp: assign_def)

lemma and_then_Normal [simp]: "and_then (Normal st) f = f st"
  by (simp add: and_then_def)

lemma and_then_Throw [simp]: "and_then (Throw e st) f = Throw e st"
  by (simp add: and_then_def)

lemma logged_Normal [simp]: "logged tag (Normal st) = Normal st"
  by (simp add: logged_def)

lemma content_modify:
  assumes "\<And>e. eid (f e) = eid e"
  shows "content (modify i f st) j =
         (if i = j then (case getElementById (doc st) j of None \<Rightarrow> [] | Some e \<Rightarrow> children (f e))
          else content st j)"
  by (simp add: content_def getElementById_modify [OF assms] split: option.splits)

lemma children_set_text [simp]: "children (set_text s e) = [Text s]"
  by (simp add: set_text_def)

lemma content_fetch [simp]: "content (fetch t st) i = content st i"
  by (simp add: content_def fetch_def)

section \<open>Rendering without a surface\<close>

text \<open>
  C7. When the canvas or the panel of the dynamic chart is not in the document,
  \<open>renderDynamicChart\<close> returns with the state as it was: no chart is constructed,
  nothing is destroyed, nothing is written, nothing is thrown. The same holds for
  \<open>createDemoChart\<close> when its canvas is missing, and for the rest of
  \<open>loadOverviewChart\<close> when the overview canvas is missing.
\<close>

theorem render_without_surface_is_noop:
  "(getElementById (doc st) ''chartPanel'' = None \<or> getElementById (doc st) ''dynamicChart'' = None
      \<longrightarrow> renderDynamicChart chartData st = Normal st) \<and>
   (getElementById (doc st) canvasId = None
      \<longrightarrow> createDemoChart canvasId data ty chartRef setChart st = st) \<and>
   (getElementById (doc st) ''overviewChart'' = None
      \<longrightarrow> loadOverviewChart_response (Success d) st = Normal st)"
  by (simp add: renderDynamicChart_def createDemoChart_def loadOverviewChart_response_def)

theorem render_without_surface_is_noop_witness:
  "getElementById (doc panel_only_page) ''dynamicChart'' = None \<and>
   renderDynamicChart example_chart panel_only_page = Normal panel_only_page \<and>
   createDemoChart ''genderChart'' [(''F'', Num 60), (''M'', Num 40)] ''gender'' None
       (\<lambda>c s. s\<lparr>genderChart := Some c\<rparr>) panel_only_page = panel_only_page \<and>
   loadOverviewChart_response (Success \<lparr>by_gender = [], by_caste = [], by_income = []\<rparr>)
       panel_only_page = Normal panel_only_page"
proof -
  have "getElementById (doc panel_only_page) ''dynamicChart'' = None"
    "getElementById (doc panel_only_page) ''genderChart'' = None"
    "getElementById (doc panel_only_page) ''overviewChart'' = None"
    by (simp_all add: panel_only_page_def page_def blank_def getElementById_def)
  with render_without_surface_is_noop
         [of panel_only_page example_chart "''genderChart''"
             "[(''F'', Num 60), (''M'', Num 40)]" "''gender''" None "\<lambda>c s. s\<lparr>genderChart := Some c\<rparr>"
             "\<lparr>by_gender = [], by_caste = [], by_income = []\<rparr>"]
  show ?thesis by simp
qed

section \<open>An empty list of categories\<close>

text \<open>
  C10. With the category canvas and the findings list in the document, a successful
  reply of \<^verbatim>\<open>/complaint-types\<close> that holds no category still gets a chart with no labels
  and no data; reading \<^verbatim>\<open>most.category\<close> of the missing first category then throws, the
  \<^verbatim>\<open>catch\<close> of \<open>loadCategories\<close> logs it to the console, and the function ends normally
  with the whole document, so also the findings list, as it was and no alert shown.
\<close>

theorem empty_categories_failure_is_caught:
  assumes "getElementById (doc st) ''categoryChart'' \<noteq> None"
      and "getElementById (doc st) ''catFindings'' \<noteq> None"
  shows "\<exists>st'. loadCategories_response (Success []) st = Normal st' \<and>
           charts st' = charts (destroy_if (categoryChart st) st) @
             [\<lparr>canvas = ''categoryChart'',
               config = fixed_config ''bar'' [] (Some ''Silenced %'') [] [''#ff6b6b''] ''y'',
               destroyed = False\<rparr>] \<and>
           categoryChart st' = Some (length (charts st)) \<and>
           doc st' = doc st \<and> alerts st' = alerts st \<and>
           console st' = console st @ [''Categories error: most is undefined'']"
proof -
  have d: "doc (destroy_if (categoryChart st) st) = doc st"
    "length (charts (destroy_if (categoryChart st) st)) = length (charts st)"
    "alerts (destroy_if (categoryChart st) st) = alerts st"
    "console (destroy_if (categoryChart st) st) = console st"
    by (simp_all add: destroy_if_def destroy_def split: option.splits)
  from assms d show ?thesis
    by (auto simp: loadCategories_response_def logged_def new_Chart_def console_error_def
        message_of_def Let_def)
qed

theorem empty_categories_failure_is_caught_witness:
  "getElementById (doc categories_page) ''categoryChart'' \<noteq> None \<and>
   getElementById (doc categories_page) ''catFindings'' \<noteq> None \<and>
   (\<exists>st'. loadCategories_response (Success []) categories_page = Normal st' \<and>
      length (charts st') = 1 \<and>
      content st' ''catFindings'' = [Finding ''an earlier finding''] \<and>
      alerts st' = [] \<and>
      console st' = [''Categories error: most is undefined''])"
proof -
  have h: "getElementById (doc categories_page) ''categoryChart'' \<noteq> None"
    "getElementById (doc categories_page) ''catFindings'' \<noteq> None"
    by (simp_all add: categories_page_def page_def blank_def getElementById_def)
  have c: "content categories_page ''catFindings'' = [Finding ''an earlier finding'']"
    "charts categories_page = []" "categoryChart categories_page = None"
    "alerts categories_page = []" "console categories_page = []"
    by (simp_all add: content_def categories_page_def page_def blank_def getElementById_def)
  from empty_categories_failure_is_caught [OF h] obtain st'
    where "loadCategories_response (Success []) categories_page = Normal st'"
      and "charts st' = charts (destroy_if (categoryChart categories_page) categories_page) @
             [\<lparr>canvas = ''categoryChart'',
               config = fixed_config ''bar'' [] (Some ''Silenced %'') [] [''#ff6b6b''] ''y'',
               destroyed = False\<rparr>]"
      and "doc st' = doc categories_page" and "alerts st' = alerts categories_page"
      and "console st' = console categories_page @ [''Categories error: most is undefined'']"
    by blast
  with h c show ?thesis
    by (simp add: content_def destroy_if_def)
qed

section \<open>The summary statistics\<close>

lemma scenario_values:
  "Math_round (Number_divide (Number_multiply (Num 10000) (Num (85 / 2))) (Num 100)) = Num 4250"
  "Number_toString (Num (85 / 2)) = ''42.5''"
  "grouped (Num 4250) = ''4,250''"
  by code_simp+

lemma rounding_values:
  "grouped (Math_round (Number_divide (Number_multiply (total_complaints rounding_stats)
      (silence_rate rounding_stats)) (Num 100))) = ''161''"
  "grouped (Math_round (Number_divide (Number_multiply (total_complaints rounded_product_stats)
      (silence_rate rounded_product_stats)) (Num 100))) = ''2''"
  "Number_toString (silence_rate rounding_stats) = ''16.15''"
  "Number_toString (silence_rate rounded_product_stats) = ''0.6''"
  by code_simp+

text \<open>\<open>Math.round\<close> of a finite number is the integer nearest to it, the upper one at a tie.\<close>

lemma Math_round_nearest:
  "\<exists>n::int. of_int n - 1 / 2 \<le> q \<and> q < of_int n + 1 / 2 \<and>
     (Math_round (Num q) = Num (of_int n) \<or> n = 0 \<and> Math_round (Num q) = NegZero)"
proof -
  have "of_int \<lfloor>q + 1 / 2\<rfloor> \<le> q + 1 / 2" "q + 1 / 2 < of_int \<lfloor>q + 1 / 2\<rfloor> + 1"
    by linarith+
  then have "of_int \<lfloor>q + 1 / 2\<rfloor> - 1 / 2 \<le> q \<and> q < of_int \<lfloor>q + 1 / 2\<rfloor> + 1 / 2"
    by linarith
  then show ?thesis
    by (intro exI [of _ "\<lfloor>q + 1 / 2\<rfloor>"]) (simp add: Math_round_def)
qed

text \<open>
  C8. With the eight elements of the statistics view in the document, a successful reply
  of \<^verbatim>\<open>/stats\<close> shows as silenced count the host's formatting of
  \<open>Math.round(total_complaints * silence_rate / 100)\<close>, the product and the quotient
  being those of double-precision numbers, and as alert text the rate as \<open>Number::toString\<close>
  prints it, \<^verbatim>\<open>% of complaints (\<close>, the same formatted count and
  \<^verbatim>\<open> cases) are being systematically ignored\<close>. When the quotient is a finite number
  \<open>q\<close>, the count is the integer \<open>n\<close> with \<open>n - 1/2 \<le> q < n + 1/2\<close> (negative zero
  for \<open>n = 0\<close> and \<open>q < 0\<close>). For 10000 complaints and a rate of 42.5, under a formatter
  that prints 4250 as \<^verbatim>\<open>4,250\<close>, the count shown is \<^verbatim>\<open>4,250\<close> and the alert is
  \<^verbatim>\<open>42.5% of complaints (4,250 cases) are being systematically ignored\<close>.
\<close>

theorem dashboard_silenced_count_and_alert:
  assumes "\<forall>i \<in> set dashboard_ids. getElementById (doc st) i \<noteq> None"
  shows "(\<exists>st'. loadDashboard_response loc (Success data) st = Normal st' \<and>
            content st' ''silencedCount'' =
              [Text (loc (Math_round (Number_divide
                 (Number_multiply (total_complaints data) (silence_rate data)) (Num 100))))] \<and>
            content st' ''alertText'' =
              [Text (Number_toString (silence_rate data) @ ''% of complaints ('' @
                     loc (Math_round (Number_divide
                       (Number_multiply (total_complaints data) (silence_rate data)) (Num 100))) @
                     '' cases) are being systematically ignored'')]) \<and>
         (\<forall>q. Number_divide (Number_multiply (total_complaints data) (silence_rate data)) (Num 100)
                = Num q \<longrightarrow>
            (\<exists>n::int. of_int n - 1 / 2 \<le> q \<and> q < of_int n + 1 / 2 \<and>
               (Math_round (Num q) = Num (of_int n) \<or> n = 0 \<and> Math_round (Num q) = NegZero))) \<and>
         (total_complaints data = Num 10000 \<and> silence_rate data = Num (85 / 2) \<and>
          loc (Num 4250) = ''4,250'' \<longrightarrow>
            (\<exists>st'. loadDashboard_response loc (Success data) st = Normal st' \<and>
               content st' ''silencedCount'' = [Text ''4,250''] \<and>
               content st' ''alertText'' =
                 [Text ''42.5% of complaints (4,250 cases) are being systematically ignored'']))"
proof -
  have general: "\<exists>st'. loadDashboard_response loc (Success data) st = Normal st' \<and>
            content st' ''silencedCount'' = [Text (loc (silenced_of data))] \<and>
            content st' ''alertText'' = [Text (alert_text loc data)]"
  proof -
    have p: "getElementById (doc st) ''totalCases'' \<noteq> None"
      "getElementById (doc st) ''headerCases'' \<noteq> None"
      "getElementById (doc st) ''silencedCount'' \<noteq> None"
      "getElementById (doc st) ''silenceRate'' \<noteq> None"
      "getElementById (doc st) ''headerSilenced'' \<noteq> None"
      "getElementById (doc st) ''avgScore'' \<noteq> None"
      "getElementById (doc st) ''avgDays'' \<noteq> None"
      "getElementById (doc st) ''alertText'' \<noteq> None"
      using assms by (simp_all add: dashboard_ids_def)
    then show ?thesis
      by (simp add: loadDashboard_response_def assign_present getElementById_modify
          loadOverviewChart_def content_modify split: option.splits)
  qed
  show ?thesis
  proof (intro conjI impI allI)
    from general
    show "\<exists>st'. loadDashboard_response loc (Success data) st = Normal st' \<and>
            content st' ''silencedCount'' =
              [Text (loc (Math_round (Number_divide
                 (Number_multiply (total_complaints data) (silence_rate data)) (Num 100))))] \<and>
            content st' ''alertText'' =
              [Text (Number_toString (silence_rate data) @ ''% of complaints ('' @
                     loc (Math_round (Number_divide
                       (Number_multiply (total_complaints data) (silence_rate data)) (Num 100))) @
                     '' cases) are being systematically ignored'')]"
      by (simp add: silenced_of_def alert_text_def)
  next
    fix q
    show "\<exists>n::int. of_int n - 1 / 2 \<le> q \<and> q < of_int n + 1 / 2 \<and>
               (Math_round (Num q) = Num (of_int n) \<or> n = 0 \<and> Math_round (Num q) = NegZero)"
      by (rule Math_round_nearest)
  next
    assume a: "total_complaints data = Num 10000 \<and> silence_rate data = Num (85 / 2) \<and>
          loc (Num 4250) = ''4,250''"
    then have t: "total_complaints data = Num 10000" and r: "silence_rate data = Num (85 / 2)"
      and l: "loc (Num 4250) = ''4,250''"
      by simp_all
    have s: "silenced_of data = Num 4250"
      by (simp only: silenced_of_def t r scenario_values(1))
    have x: "alert_text loc data =
               ''42.5% of complaints (4,250 cases) are being systematically ignored''"
      by (simp only: alert_text_def s r l scenario_values(2)) simp
    from general
    show "\<exists>st'. loadDashboard_response loc (Success data) st = Normal st' \<and>
               content st' ''silencedCount'' = [Text ''4,250''] \<and>
               content st' ''alertText'' =
                 [Text ''42.5% of complaints (4,250 cases) are being systematically ignored'']"
      by (simp only: s x l)
  qed
qed

theorem dashboard_silenced_count_and_alert_witness:
  "list_all (\<lambda>i. getElementById (doc dashboard_page) i \<noteq> None) dashboard_ids \<and>
   (\<exists>st'. loadDashboard_response grouped (Success scenario_stats) dashboard_page = Normal st' \<and>
      content st' ''silencedCount'' = [Text ''4,250''] \<and>
      content st' ''alertText'' =
        [Text ''42.5% of complaints (4,250 cases) are being systematically ignored'']) \<and>
   (\<exists>st'. loadDashboard_response grouped (Success rounding_stats) dashboard_page = Normal st' \<and>
      content st' ''silencedCount'' = [Text ''161''] \<and>
      content st' ''alertText'' =
        [Text ''16.15% of complaints (161 cases) are being systematically ignored'']) \<and>
   (\<exists>st'. loadDashboard_response grouped (Success rounded_product_stats) dashboard_page = Normal st' \<and>
      content st' ''silencedCount'' = [Text ''2''] \<and>
      content st' ''alertText'' =
        [Text ''0.6% of complaints (2 cases) are being systematically ignored''])"
proof -
  have h: "\<forall>i \<in> set dashboard_ids. getElementById (doc dashboard_page) i \<noteq> None"
    by (simp add: dashboard_ids_def dashboard_page_def page_def blank_def getElementById_def)
  have v: "total_complaints scenario_stats = Num 10000" "silence_rate scenario_stats = Num (85 / 2)"
    by (simp_all add: scenario_stats_def)
  from dashboard_silenced_count_and_alert [OF h, of grouped scenario_stats]
       dashboard_silenced_count_and_alert [OF h, of grouped rounding_stats]
       dashboard_silenced_count_and_alert [OF h, of grouped rounded_product_stats]
  show ?thesis
    using h by (simp only: v scenario_values rounding_values list_all_iff) simp
qed


section \<open>One live chart per slot\<close>







lemma length_destroy_if [simp]: "length (charts (destroy_if v st)) = length (charts st)"
  by (simp add: destroy_if_def destroy_def split: option.splits)

lemma doc_destroy_if [simp]: "doc (destroy_if v st) = doc st"
  by (simp add: destroy_if_def destroy_def split: option.splits)

lemma doc_new_Chart [simp]: "doc (new_Chart c cfg st) = doc st"
  by (simp add: new_Chart_def)




lemma live_on_modify [simp]: "live_on c (modify i f st) = live_on c st"
  by (simp add: live_on_def live_in_def)

lemma slot_ok_modify [simp]: "slot_ok c v (modify i f st) = slot_ok c v st"
  by (simp add: slot_ok_def split: option.splits)

lemma slot_ok_vars [simp]:
  "slot_ok c v (st\<lparr>dynamicChart := x\<rparr>) = slot_ok c v st"
  "slot_ok c v (st\<lparr>genderChart := x\<rparr>) = slot_ok c v st"
  "slot_ok c v (st\<lparr>casteChart := x\<rparr>) = slot_ok c v st"
  "slot_ok c v (st\<lparr>incomeChart := x\<rparr>) = slot_ok c v st"
  by (simp_all add: slot_ok_def live_on_def live_in_def split: option.splits)

lemma live_on_vars [simp]:
  "live_on c (st\<lparr>dynamicChart := x\<rparr>) = live_on c st"
  "live_on c (st\<lparr>genderChart := x\<rparr>) = live_on c st"
  "live_on c (st\<lparr>casteChart := x\<rparr>) = live_on c st"
  "live_on c (st\<lparr>incomeChart := x\<rparr>) = live_on c st"
  by (simp_all add: live_on_def live_in_def)

lemma destroy_if_modify: "destroy_if v (modify i f st) = modify i f (destroy_if v st)"
  by (simp add: destroy_if_def destroy_def modify_def split: option.splits)

text \<open>What \<open>renderDynamicChart\<close> does when panel, title and canvas are there.\<close>

lemma renderDynamicChart_present:
  assumes "getElementById (doc st) ''chartPanel'' \<noteq> None"
      and "getElementById (doc st) ''dynamicChart'' \<noteq> None"
      and "getElementById (doc st) ''chartTitle'' \<noteq> None"
  shows "renderDynamicChart chartData st =
           Normal ((new_Chart ''dynamicChart'' (dynamic_config chartData)
                      (destroy_if (dynamicChart st)
                         (modify ''chartTitle'' (set_text (or_else (cd_title chartData) ''Analysis Chart''))
                            (modify ''chartPanel'' (set_display ''flex'') st))))
                   \<lparr>dynamicChart := Some (length (charts st))\<rparr>)"
  using assms
  by (auto simp: renderDynamicChart_def assign_present getElementById_modify Let_def)



lemma present_modify:
  assumes "\<And>e. eid (f e) = eid e"
  shows "(getElementById (doc (modify i f st)) j \<noteq> None) = (getElementById (doc st) j \<noteq> None)"
  by (simp add: getElementById_modify [OF assms])

lemma vars_new_Chart [simp]:
  "genderChart (new_Chart c cfg st) = genderChart st"
  "casteChart (new_Chart c cfg st) = casteChart st"
  "incomeChart (new_Chart c cfg st) = incomeChart st"
  "dynamicChart (new_Chart c cfg st) = dynamicChart st"
  by (simp_all add: new_Chart_def)

lemma vars_destroy_if [simp]:
  "genderChart (destroy_if v st) = genderChart st"
  "casteChart (destroy_if v st) = casteChart st"
  "incomeChart (destroy_if v st) = incomeChart st"
  "dynamicChart (destroy_if v st) = dynamicChart st"
  by (simp_all add: destroy_if_def destroy_def split: option.splits)

lemma length_new_Chart [simp]: "length (charts (new_Chart c cfg st)) = Suc (length (charts st))"
  by (simp add: new_Chart_def)









section \<open>Navigation: one click\<close>

lemma has_class_add [simp]: "has_class c (class_add c' e) = (c = c' \<or> has_class c e)"
  by (auto simp: has_class_def class_add_def)

lemma has_class_remove [simp]: "has_class c (class_remove c' e) = (c \<noteq> c' \<and> has_class c e)"
  by (auto simp: has_class_def class_remove_def)

lemma has_class_set_children [simp]: "has_class c (set_children ns e) = has_class c e"
  by (simp add: has_class_def set_children_def)

lemma children_class [simp]:
  "children (class_add c e) = children e" "children (class_remove c e) = children e"
  by (simp_all add: class_add_def class_remove_def)

lemma children_set_children [simp]: "children (set_children ns e) = ns"
  by (simp add: set_children_def)







lemma doc_loadScreenData [simp]: "doc (loadScreenData screenId st) = doc st"
  by (simp add: loadScreenData_def loadDashboard_def loadDemographics_def
       loadGeography_def loadCategories_def loadTemporal_def fetch_def)


lemma length_update_first [simp]: "length (update_first P f xs) = length xs"
  by (induction xs) auto






section \<open>Blank messages\<close>

text \<open>
  C6, as the code has it. When the chat input holds nothing but white space, the click
  on the send button and the Enter key leave the state as it was: no user message, no
  typing indicator, no request.
\<close>

theorem blank_input_is_not_sent:
  assumes "\<forall>e. getElementById (doc st) ''chatInput'' = Some e \<longrightarrow> trim (val e) = []"
  shows "sendBtn_click st = Normal st \<and> chatInput_keypress key shiftKey st = Normal st"
  using assms by (simp add: sendBtn_click_def chatInput_keypress_def split: option.splits)

theorem blank_input_is_not_sent_witness:
  "sendBtn_click typed_blank = Normal typed_blank \<and>
   chatInput_keypress ''Enter'' False typed_blank = Normal typed_blank \<and>
   content typed_blank ''chatMessages'' = [] \<and> pending typed_blank = []"
proof -
  have h: "\<forall>e. getElementById (doc typed_blank) ''chatInput'' = Some e \<longrightarrow> trim (val e) = []"
    by (simp add: typed_blank_def chat_page_def page_def blank_def getElementById_def
        modify_def set_val_def trim_def is_space_def)
  have "content typed_blank ''chatMessages'' = [] \<and> pending typed_blank = []"
    by code_simp
  with blank_input_is_not_sent [OF h, of "''Enter''" False] show ?thesis by simp
qed

text \<open>
  C6, as the claim has it, fails on the paths that call \<open>sendChatMessage\<close> directly:
  \<open>sendSuggestion\<close> with a message of three spaces appends the user message and the typing
  indicator and issues the request.
\<close>

theorem blank_suggestion_is_sent:
  "trim ''   '' = [] \<and>
   transcript (after (sendSuggestion ''   '' chat_page)) =
     [MessageDiv ''user'' ''   '', TypingDiv 0] \<and>
   pending (after (sendSuggestion ''   '' chat_page)) = [ChatFetch 0 ''   '' None]"
  by code_simp


section \<open>The colours of the dynamic chart\<close>

text \<open>
  C9. The colours given to the dynamic chart are the first \<open>min n 6\<close> entries of the
  palette, in order, for \<open>n\<close> labels: position \<open>i\<close> below \<open>min n 6\<close> has the \<open>i\<close>-th colour
  of the palette, and the array never has more than six entries. Chart.js reads the
  array cyclically, so in the chart every position \<open>i\<close> below \<open>n\<close> is drawn in the colour
  \<open>i mod 6\<close> of the palette: by position, and past the sixth position the palette is
  reused from its start. For a spec with as many values as labels these are all the
  positions of the series. With panel, title and canvas in the document,
  \<open>renderDynamicChart\<close> ends normally and the chart it leaves in its slot is live, on
  the canvas of the dynamic chart, and has this configuration.
\<close>

theorem dynamic_chart_colors:
  "cfg_backgroundColor (dynamic_config chartData) = take (length (cd_labels chartData)) palette \<and>
   length (cfg_backgroundColor (dynamic_config chartData)) = min (length (cd_labels chartData)) 6 \<and>
   (\<forall>i < min (length (cd_labels chartData)) 6.
      cfg_backgroundColor (dynamic_config chartData) ! i = palette ! i) \<and>
   (\<forall>i < length (cd_labels chartData).
      cfg_backgroundColor (dynamic_config chartData) !
        (i mod length (cfg_backgroundColor (dynamic_config chartData))) = palette ! (i mod 6)) \<and>
   (\<forall>i < length (cd_labels chartData).
      element_color (dynamic_config chartData) i = Some (palette ! (i mod 6))) \<and>
   (length (cd_values chartData) = length (cd_labels chartData) \<longrightarrow>
      (\<forall>i < length (cfg_data (dynamic_config chartData)).
         element_color (dynamic_config chartData) i = Some (palette ! (i mod 6)))) \<and>
   (getElementById (doc st) ''chartPanel'' \<noteq> None \<and>
    getElementById (doc st) ''dynamicChart'' \<noteq> None \<and>
    getElementById (doc st) ''chartTitle'' \<noteq> None \<longrightarrow>
      (\<exists>st' h. renderDynamicChart chartData st = Normal st' \<and>
         dynamicChart st' = Some h \<and> h < length (charts st') \<and>
         charts st' ! h =
           \<lparr>canvas = ''dynamicChart'', config = dynamic_config chartData, destroyed = False\<rparr>))"
proof -
  have l: "length palette = 6" by (simp add: palette_def)
  have b: "cfg_backgroundColor (dynamic_config chartData) = take (length (cd_labels chartData)) palette"
    by (simp add: dynamic_config_def slice0_def)
  have c: "take n palette ! (i mod min n 6) = palette ! (i mod 6)" if "i < n" for i n
  proof (cases "n \<le> 6")
    case True
    with that have "i mod min n 6 = i" "i mod 6 = i" by (simp_all add: min_def)
    with that show ?thesis by simp
  next
    case False
    then have "min n 6 = 6" by simp
    moreover have "i mod 6 < n" using False by (simp add: less_trans [OF mod_less_divisor])
    ultimately show ?thesis by simp
  qed
  have e: "element_color (dynamic_config chartData) i = Some (palette ! (i mod 6))"
    if "i < length (cd_labels chartData)" for i
  proof -
    from that have "take (length (cd_labels chartData)) palette \<noteq> []"
      by (auto simp: palette_def)
    with c [OF that] show ?thesis
      by (simp add: element_color_def b l min.commute)
  qed
  have d: "cfg_data (dynamic_config chartData) = cd_values chartData"
    by (simp add: dynamic_config_def)
  have r: "\<exists>st' h. renderDynamicChart chartData st = Normal st' \<and>
         dynamicChart st' = Some h \<and> h < length (charts st') \<and>
         charts st' ! h =
           \<lparr>canvas = ''dynamicChart'', config = dynamic_config chartData, destroyed = False\<rparr>"
    if p: "getElementById (doc st) ''chartPanel'' \<noteq> None \<and>
           getElementById (doc st) ''dynamicChart'' \<noteq> None \<and>
           getElementById (doc st) ''chartTitle'' \<noteq> None"
  proof -
    let ?m = "modify ''chartTitle'' (set_text (or_else (cd_title chartData) ''Analysis Chart''))
                (modify ''chartPanel'' (set_display ''flex'') st)"
    let ?s = "destroy_if (dynamicChart ?m) ?m"
    let ?st' = "(new_Chart ''dynamicChart'' (dynamic_config chartData) ?s)
                  \<lparr>dynamicChart := Some (length (charts st))\<rparr>"
    from p have "renderDynamicChart chartData st = Normal ?st'"
      by (simp add: renderDynamicChart_present modify_def)
    moreover have "charts ?st' ! length (charts st) =
        \<lparr>canvas = ''dynamicChart'', config = dynamic_config chartData, destroyed = False\<rparr>"
      using length_destroy_if [of "dynamicChart ?m" ?m]
      by (simp add: new_Chart_def nth_append modify_def del: length_destroy_if)
    moreover have "length (charts st) < length (charts ?st')"
      by (simp add: modify_def)
    ultimately show ?thesis by simp
  qed
  show ?thesis
    using c e r by (simp add: b l d min.commute)
qed

theorem dynamic_chart_colors_witness:
  "cfg_backgroundColor (dynamic_config seven) ! 2 = ''#ff6b6b'' \<and>
   element_color (dynamic_config seven) 2 = Some ''#ff6b6b'' \<and>
   element_color (dynamic_config seven) 5 = Some ''#ec4899'' \<and>
   element_color (dynamic_config seven) 6 = Some ''#00d4ff'' \<and>
   (\<exists>st' h. renderDynamicChart seven chart_page = Normal st' \<and>
      dynamicChart st' = Some h \<and> h < length (charts st') \<and>
      charts st' ! h = \<lparr>canvas = ''dynamicChart'', config = dynamic_config seven, destroyed = False\<rparr>)"
proof -
  have n: "(2::nat) < min (length (cd_labels seven)) 6" "(2::nat) < length (cd_labels seven)"
    "(5::nat) < length (cd_labels seven)" "(6::nat) < length (cd_labels seven)"
    by (simp_all add: seven_def)
  have p: "getElementById (doc chart_page) ''chartPanel'' \<noteq> None \<and>
    getElementById (doc chart_page) ''dynamicChart'' \<noteq> None \<and>
    getElementById (doc chart_page) ''chartTitle'' \<noteq> None"
    by (simp add: chart_page_def page_def blank_def getElementById_def)
  from dynamic_chart_colors [of seven chart_page] n p show ?thesis
    by (simp add: palette_def)
qed


section \<open>Failures\<close>

lemma find_map_eid:
  assumes "\<And>e. eid (g e) = eid e"
  shows "find (\<lambda>e. eid e = j) (map g d) = map_option g (find (\<lambda>e. eid e = j) d)"
  by (induction d) (auto simp: assms)

lemma getElementById_remove_node:
  "getElementById (doc (remove_node n st)) i =
     map_option (\<lambda>e. e\<lparr>children := removeAll n (children e)\<rparr>) (getElementById (doc st) i)"
  by (simp add: remove_node_def getElementById_def find_map_eid)

lemma content_remove_node: "content (remove_node n st) i = removeAll n (content st i)"
  by (simp add: content_def getElementById_remove_node split: option.splits)

lemma remove_node_fields [simp]:
  "charts (remove_node n st) = charts st" "pending (remove_node n st) = pending st"
  "console (remove_node n st) = console st" "alerts (remove_node n st) = alerts st"
  "currentSession (remove_node n st) = currentSession st"
  "dynamicChart (remove_node n st) = dynamicChart st"
  by (simp_all add: remove_node_def)

lemma children_append_child [simp]: "children (append_child n e) = children e @ [n]"
  by (simp add: append_child_def)

lemma addMessageToChat_present:
  assumes "getElementById (doc st) ''chatMessages'' \<noteq> None"
  shows "addMessageToChat role c st =
           Normal (modify ''chatMessages'' (append_child (MessageDiv role c)) st)"
  using assms by (simp add: addMessageToChat_def assign_present)

lemma transcript_append:
  assumes "getElementById (doc st) ''chatMessages'' \<noteq> None"
  shows "transcript (modify ''chatMessages'' (append_child x) st) = transcript st @ [x]"
  using assms by (auto simp: transcript_def content_def getElementById_modify)

text \<open>What the chat does with a failure.\<close>

lemma chat_failure:
  assumes "getElementById (doc st) ''chatMessages'' \<noteq> None"
  shows "sendChatMessage_response n (NetworkFailure m) st =
           Normal (modify ''chatMessages''
                     (append_child (MessageDiv ''assistant'' (''Connection error: '' @ m)))
                     (remove_node (TypingDiv n) st))"
    and "sendChatMessage_response n (BackendError m) st =
           Normal (modify ''chatMessages''
                     (append_child (MessageDiv ''assistant'' (''Error: '' @ m)))
                     (remove_node (TypingDiv n) st))"
proof -
  have p: "getElementById (doc (remove_node (TypingDiv n) st)) ''chatMessages'' \<noteq> None"
    using assms by (simp add: getElementById_remove_node)
  show "sendChatMessage_response n (NetworkFailure m) st =
           Normal (modify ''chatMessages''
                     (append_child (MessageDiv ''assistant'' (''Connection error: '' @ m)))
                     (remove_node (TypingDiv n) st))"
    by (simp add: sendChatMessage_response_def chat_catch_def message_of_def
        addMessageToChat_present [OF p])
  show "sendChatMessage_response n (BackendError m) st =
           Normal (modify ''chatMessages''
                     (append_child (MessageDiv ''assistant'' (''Error: '' @ m)))
                     (remove_node (TypingDiv n) st))"
    by (simp add: sendChatMessage_response_def chat_catch_def addMessageToChat_present [OF p])
qed

text \<open>
  C5, as the code has it. In the chat, with the transcript element in the document, a
  network failure and an envelope with \<^verbatim>\<open>success: false\<close> both end normally, with the
  typing indicator removed and an assistant message appended (\<^verbatim>\<open>Connection error: \<close>
  or \<^verbatim>\<open>Error: \<close> and the message). In the search, with the results panel in the
  document, a network failure ends normally with the panel showing the error state. In
  the dashboard a failure is caught as well, but nothing is shown: a network failure
  only adds a line to the console, and an envelope with \<^verbatim>\<open>success: false\<close> changes
  nothing at all.
\<close>

theorem failures_at_the_component_boundary:
  "(getElementById (doc st) ''chatMessages'' \<noteq> None \<longrightarrow>
      (\<exists>st'. sendChatMessage_response n (NetworkFailure m) st = Normal st' \<and>
         transcript st' = removeAll (TypingDiv n) (transcript st) @
                            [MessageDiv ''assistant'' (''Connection error: '' @ m)]) \<and>
      (\<exists>st'. sendChatMessage_response n (BackendError m) st = Normal st' \<and>
         transcript st' = removeAll (TypingDiv n) (transcript st) @
                            [MessageDiv ''assistant'' (''Error: '' @ m)])) \<and>
   (getElementById (doc st) ''searchResults'' \<noteq> None \<longrightarrow>
      (\<exists>st'. performSearch_response (NetworkFailure m) st = Normal st' \<and>
         content st' ''searchResults'' = [ErrorState m])) \<and>
   loadDashboard_response loc (NetworkFailure m) st =
     Normal (st\<lparr>console := console st @ [''Dashboard error: '' @ m]\<rparr>) \<and>
   loadDashboard_response loc (BackendError m) st = Normal st"
proof (intro conjI impI)
  assume p: "getElementById (doc st) ''chatMessages'' \<noteq> None"
  then have q: "getElementById (doc (remove_node (TypingDiv n) st)) ''chatMessages'' \<noteq> None"
    by (simp add: getElementById_remove_node)
  show "\<exists>st'. sendChatMessage_response n (NetworkFailure m) st = Normal st' \<and>
         transcript st' = removeAll (TypingDiv n) (transcript st) @
                            [MessageDiv ''assistant'' (''Connection error: '' @ m)]"
    by (simp add: chat_failure(1) [OF p] transcript_append [OF q])
       (simp add: transcript_def content_remove_node)
  show "\<exists>st'. sendChatMessage_response n (BackendError m) st = Normal st' \<and>
         transcript st' = removeAll (TypingDiv n) (transcript st) @
                            [MessageDiv ''assistant'' (''Error: '' @ m)]"
    by (simp add: chat_failure(2) [OF p] transcript_append [OF q])
       (simp add: transcript_def content_remove_node)
next
  assume "getElementById (doc st) ''searchResults'' \<noteq> None"
  then show "\<exists>st'. performSearch_response (NetworkFailure m) st = Normal st' \<and>
         content st' ''searchResults'' = [ErrorState m]"
    by (auto simp: performSearch_response_def search_catch_def message_of_def assign_present
        content_modify)
next
  show "loadDashboard_response loc (NetworkFailure m) st =
     Normal (st\<lparr>console := console st @ [''Dashboard error: '' @ m]\<rparr>)"
    by (simp add: loadDashboard_response_def logged_def console_error_def message_of_def)
  show "loadDashboard_response loc (BackendError m) st = Normal st"
    by (simp add: loadDashboard_response_def)
qed


theorem failures_at_the_component_boundary_witness:
  "(\<exists>st'. sendChatMessage_response 0 (NetworkFailure ''Failed to fetch'') waiting_page = Normal st' \<and>
      transcript st' = [MessageDiv ''user'' ''hello'',
                        MessageDiv ''assistant'' ''Connection error: Failed to fetch'']) \<and>
   (\<exists>st'. sendChatMessage_response 0 (BackendError ''Failed to fetch'') waiting_page = Normal st' \<and>
      transcript st' = [MessageDiv ''user'' ''hello'',
                        MessageDiv ''assistant'' ''Error: Failed to fetch'']) \<and>
   (\<exists>st'. performSearch_response (NetworkFailure ''Failed to fetch'') search_page = Normal st' \<and>
      content st' ''searchResults'' = [ErrorState ''Failed to fetch''])"
proof -
  have h: "getElementById (doc waiting_page) ''chatMessages'' \<noteq> None"
    "getElementById (doc search_page) ''searchResults'' \<noteq> None"
    by code_simp+
  have v: "transcript waiting_page = [MessageDiv ''user'' ''hello'', TypingDiv 0]"
    by code_simp
  from failures_at_the_component_boundary [of waiting_page 0 "''Failed to fetch''" grouped]
       failures_at_the_component_boundary [of search_page 0 "''Failed to fetch''" grouped]
       h
  show ?thesis by (simp add: v)
qed

text \<open>
  C5, as the claim has it, fails in the dashboard: after a network failure, and after an
  envelope with \<^verbatim>\<open>success: false\<close>, the document is what it was and no alert is shown;
  the envelope does not even reach the console.
\<close>

theorem dashboard_failure_shows_nothing:
  "doc (after (loadDashboard_response grouped (NetworkFailure ''Failed to fetch'')
                 dashboard_page)) = doc dashboard_page \<and>
   alerts (after (loadDashboard_response grouped (NetworkFailure ''Failed to fetch'')
                    dashboard_page)) = [] \<and>
   doc (after (loadDashboard_response grouped (BackendError ''no data'')
                 dashboard_page)) = doc dashboard_page \<and>
   alerts (after (loadDashboard_response grouped (BackendError ''no data'')
                    dashboard_page)) = [] \<and>
   console (after (loadDashboard_response grouped (BackendError ''no data'')
                     dashboard_page)) = []"
  by code_simp


section \<open>Sends and replies\<close>

lemma after_simps [simp]: "after (Normal st) = st" "after (Throw e st) = st"
  by (simp_all add: after_def)

lemma fetch_fields [simp]:
  "doc (fetch t st) = doc st" "currentSession (fetch t st) = currentSession st"
  "pending (fetch t st) = pending st @ [t]" "created (fetch t st) = created st"
  by (simp_all add: fetch_def)

lemma settle_fields [simp]:
  "doc (settle i st) = doc st" "currentSession (settle i st) = currentSession st"
  by (simp_all add: settle_def)

lemma currentSession_charts [simp]:
  "currentSession (destroy_if v st) = currentSession st"
  "currentSession (new_Chart c cfg st) = currentSession st"
  by (simp_all add: destroy_if_def destroy_def new_Chart_def split: option.splits)

text \<open>Rendering a chart touches neither the session nor the transcript element.\<close>

lemma render_keeps_session:
  "currentSession (after (renderDynamicChart cd st)) = currentSession st"
  by (simp add: renderDynamicChart_def assign_def Let_def split: option.splits)

lemma render_keeps_chat:
  "getElementById (doc (after (renderDynamicChart cd st))) ''chatMessages'' =
     getElementById (doc st) ''chatMessages''"
  by (simp add: renderDynamicChart_def assign_def Let_def getElementById_modify
      split: option.splits)

lemma addMessage_keeps_session:
  "currentSession (after (addMessageToChat role c st)) = currentSession st"
  by (simp add: addMessageToChat_def assign_def split: option.splits)

lemma chat_catch_keeps_session:
  "currentSession (after (chat_catch n c)) = currentSession (after c)"
  by (cases c) (simp_all add: chat_catch_def addMessage_keeps_session)

lemma chat_tail_keeps_session:
  "currentSession (after (chat_tail d st)) = currentSession st"
proof (cases "addMessageToChat ''assistant'' (reply_response d) st")
  case (Normal s)
  with addMessage_keeps_session [of "''assistant''" "reply_response d" st]
  show ?thesis
    by (simp add: chat_tail_def render_keeps_session split: option.splits)
next
  case (Throw e s)
  with addMessage_keeps_session [of "''assistant''" "reply_response d" st]
  show ?thesis by (simp add: chat_tail_def)
qed

lemma response_keeps_session:
  assumes "truthy (currentSession st)"
  shows "currentSession (after (sendChatMessage_response n r st)) = currentSession st"
proof (cases r)
  case (NetworkFailure m)
  then show ?thesis
    by (simp add: sendChatMessage_response_def chat_catch_keeps_session)
next
  case (BackendError m)
  then show ?thesis
    by (simp add: sendChatMessage_response_def chat_catch_keeps_session addMessage_keeps_session)
next
  case (Success d)
  with assms show ?thesis
    by (simp add: sendChatMessage_response_def chat_catch_keeps_session chat_tail_keeps_session
        Let_def)
qed

lemma response_adopts_session:
  assumes "\<not> truthy (currentSession st)" "truthy (reply_session_id d)"
  shows "currentSession (after (sendChatMessage_response n (Success d) st)) = reply_session_id d"
  using assms
  by (simp add: sendChatMessage_response_def chat_catch_def loadSessions_def Let_def)

lemma logged_ends_normally: "\<exists>s. logged tag c = Normal s"
  by (cases c) (simp_all add: logged_def)

lemma loadSessions_response_keeps_session:
  "currentSession (after (loadSessions_response r st)) = currentSession st"
  by (cases r)
     (simp_all add: loadSessions_response_def logged_def console_error_def split: option.splits)

lemma sessions_settled_keeps_session:
  "currentSession (after (sessions_settled resume r st)) = currentSession st"
proof -
  obtain s where s: "loadSessions_response r st = Normal s"
    unfolding loadSessions_response_def using logged_ends_normally by blast
  with loadSessions_response_keeps_session [of r st]
  have "currentSession s = currentSession st" by simp
  with s show ?thesis
    by (cases resume)
       (auto simp: sessions_settled_def chat_catch_keeps_session chat_tail_keeps_session)
qed

lemma reply_keeps_session:
  assumes "is_reply ev" "truthy (currentSession st)"
  shows "currentSession (after (step ev st)) = currentSession st"
proof (cases ev)
  case (ChatResponse i r)
  with assms(2) show ?thesis
    by (simp add: step_def response_keeps_session split: task.splits)
next
  case (SessionsResponse i r)
  then show ?thesis
    by (simp add: step_def sessions_settled_keeps_session split: task.splits)
qed (use assms(1) in \<open>simp_all add: is_reply_def\<close>)

lemma replies_keep_session:
  assumes "\<forall>ev \<in> set evs. is_reply ev" "truthy (currentSession st)"
  shows "currentSession (run evs st) = currentSession st"
  using assms
proof (induction evs arbitrary: st)
  case Nil
  then show ?case by simp
next
  case (Cons ev evs)
  then have "currentSession (after (step ev st)) = currentSession st"
    by (simp add: reply_keeps_session)
  with Cons show ?case by simp
qed

text \<open>What \<open>sendChatMessage\<close> does when the transcript element is there.\<close>

lemma sendChatMessage_present:
  assumes "getElementById (doc st) ''chatMessages'' \<noteq> None"
  shows "\<exists>st'. sendChatMessage m st = Normal st' \<and>
           pending st' = pending st @ [ChatFetch (created st) m (currentSession st)] \<and>
           created st' = Suc (created st) \<and>
           currentSession st' = currentSession st \<and>
           getElementById (doc st') ''chatMessages'' \<noteq> None"
proof -
  let ?s0 = "modify ''chatInput'' (set_val []) st"
  let ?s1 = "modify ''chatMessages'' (append_child (MessageDiv ''user'' m)) ?s0"
  let ?s2 = "modify ''chatMessages'' (append_child (TypingDiv (created st)))
               (?s1\<lparr>created := Suc (created st)\<rparr>)"
  have p0: "getElementById (doc ?s0) ''chatMessages'' \<noteq> None"
    using assms by (auto simp: getElementById_modify)
  have p1: "getElementById (doc (?s1\<lparr>created := Suc (created st)\<rparr>)) ''chatMessages'' \<noteq> None"
    using assms by (auto simp: getElementById_modify)
  have p2: "getElementById (doc ?s2) ''chatMessages'' \<noteq> None"
    using assms by (auto simp: getElementById_modify)
  have "sendChatMessage m st =
          Normal (fetch (ChatFetch (created st) m (currentSession st)) ?s2)"
    using assign_present [OF p1] p0
    by (simp add: sendChatMessage_def addMessageToChat_def assign_present)
  with p2 show ?thesis by simp
qed


text \<open>
  C1, as the code has it. Let the transcript element be in the document and no session
  be current. Two sends in a row both end normally and leave both requests pending at
  once, each carrying the (empty) session of the moment it was sent. When then a
  successful reply that carries a session id arrives for either of the two, that id
  becomes the current session, and it stays the current session through every later
  reply to a chat or session-list request, whatever id those replies carry: the client
  adopts one id.
\<close>

theorem concurrent_sends_adopt_one_session:
  assumes p: "getElementById (doc st) ''chatMessages'' \<noteq> None"
      and n: "\<not> truthy (currentSession st)"
      and d: "truthy (reply_session_id d1)"
      and e: "\<forall>ev \<in> set evs. is_reply ev"
      and i: "i = length (pending st) \<or> i = Suc (length (pending st))"
  shows "\<exists>st2. sendChatMessage m2 (after (sendChatMessage m1 st)) = Normal st2 \<and>
           pending st2 = pending st @ [ChatFetch (created st) m1 (currentSession st),
                                       ChatFetch (Suc (created st)) m2 (currentSession st)] \<and>
           currentSession (run (ChatResponse i (Success d1) # evs) st2) = reply_session_id d1"
proof -
  from sendChatMessage_present [OF p, of m1] obtain st1 where
    1: "sendChatMessage m1 st = Normal st1"
       "pending st1 = pending st @ [ChatFetch (created st) m1 (currentSession st)]"
       "created st1 = Suc (created st)" "currentSession st1 = currentSession st"
       "getElementById (doc st1) ''chatMessages'' \<noteq> None"
    by blast
  from sendChatMessage_present [OF 1(5), of m2] obtain st2 where
    2: "sendChatMessage m2 st1 = Normal st2"
       "pending st2 = pending st1 @ [ChatFetch (created st1) m2 (currentSession st1)]"
       "currentSession st2 = currentSession st1"
    by blast
  have pend: "pending st2 = pending st @ [ChatFetch (created st) m1 (currentSession st),
                                          ChatFetch (Suc (created st)) m2 (currentSession st)]"
    using 1 2 by simp
  from i obtain t m where t: "i < length (pending st2)" "pending st2 ! i = ChatFetch t m (currentSession st)"
    by (auto simp: pend nth_append)
  have "step (ChatResponse i (Success d1)) st2 =
          sendChatMessage_response t (Success d1) (settle i st2)"
    using t by (simp add: step_def)
  moreover have "\<not> truthy (currentSession (settle i st2))"
    using n 1(4) 2(3) by simp
  ultimately have a: "currentSession (after (step (ChatResponse i (Success d1)) st2)) =
                        reply_session_id d1"
    using d by (simp add: response_adopts_session)
  with d have "truthy (currentSession (after (step (ChatResponse i (Success d1)) st2)))"
    by simp
  from replies_keep_session [OF e this] a
  have "currentSession (run (ChatResponse i (Success d1) # evs) st2) = reply_session_id d1"
    by simp
  with 1(1) 2(1) pend show ?thesis by simp
qed

lemma transcript_same:
  assumes "getElementById (doc s') ''chatMessages'' = getElementById (doc s) ''chatMessages''"
  shows "transcript s' = transcript s"
  using assms by (simp add: transcript_def content_def)

lemma chat_catch_keeps_message:
  assumes "getElementById (doc (after c)) ''chatMessages'' \<noteq> None"
      and "MessageDiv r t \<in> set (transcript (after c))"
  shows "MessageDiv r t \<in> set (transcript (after (chat_catch n c)))"
proof (cases c)
  case (Normal s)
  with assms show ?thesis by (simp add: chat_catch_def)
next
  case (Throw e s)
  with assms have q: "getElementById (doc (remove_node (TypingDiv n) s)) ''chatMessages'' \<noteq> None"
    and m: "MessageDiv r t \<in> set (transcript s)"
    by (simp_all add: getElementById_remove_node)
  from m have "MessageDiv r t \<in> set (transcript (remove_node (TypingDiv n) s))"
    by (simp add: transcript_def content_remove_node)
  with Throw show ?thesis
    by (simp add: chat_catch_def addMessageToChat_present [OF q] transcript_append [OF q])
qed

lemma chat_tail_appends:
  assumes "getElementById (doc st) ''chatMessages'' \<noteq> None"
  shows "getElementById (doc (after (chat_tail d st))) ''chatMessages'' \<noteq> None"
    and "MessageDiv ''assistant'' (reply_response d) \<in> set (transcript (after (chat_tail d st)))"
proof -
  let ?s = "modify ''chatMessages'' (append_child (MessageDiv ''assistant'' (reply_response d))) st"
  have q: "getElementById (doc ?s) ''chatMessages'' \<noteq> None"
    using assms by (auto simp: getElementById_modify)
  have m: "MessageDiv ''assistant'' (reply_response d) \<in> set (transcript ?s)"
    by (simp add: transcript_append [OF assms])
  have k: "getElementById (doc (after (chat_tail d st))) ''chatMessages'' =
             getElementById (doc ?s) ''chatMessages''"
    by (simp add: chat_tail_def addMessageToChat_present [OF assms] render_keeps_chat
        split: option.splits)
  from k q show "getElementById (doc (after (chat_tail d st))) ''chatMessages'' \<noteq> None"
    by simp
  from m transcript_same [OF k]
  show "MessageDiv ''assistant'' (reply_response d) \<in> set (transcript (after (chat_tail d st)))"
    by simp
qed

text \<open>
  C2, as the code has it. With the transcript element in the document, a send ends
  normally and its request carries the session that is current at the send. When the
  successful reply to a pending chat request arrives while some session is current,
  whichever session the request was sent for, the assistant's reply is in the
  transcript afterwards, and the current session is what it was.
\<close>

theorem chat_reply_is_appended_whatever_the_session:
  "(getElementById (doc st) ''chatMessages'' \<noteq> None \<longrightarrow>
      (\<exists>st'. sendChatMessage m st = Normal st' \<and>
         pending st' = pending st @ [ChatFetch (created st) m (currentSession st)])) \<and>
   (getElementById (doc st) ''chatMessages'' \<noteq> None \<and> i < length (pending st) \<and>
    pending st ! i = ChatFetch n m' sid \<and> truthy (currentSession st) \<longrightarrow>
      MessageDiv ''assistant'' (reply_response d) \<in>
        set (transcript (after (step (ChatResponse i (Success d)) st))) \<and>
      currentSession (after (step (ChatResponse i (Success d)) st)) = currentSession st)"
proof (intro conjI impI)
  assume "getElementById (doc st) ''chatMessages'' \<noteq> None"
  from sendChatMessage_present [OF this, of m]
  show "\<exists>st'. sendChatMessage m st = Normal st' \<and>
         pending st' = pending st @ [ChatFetch (created st) m (currentSession st)]"
    by blast
next
  assume a: "getElementById (doc st) ''chatMessages'' \<noteq> None \<and> i < length (pending st) \<and>
    pending st ! i = ChatFetch n m' sid \<and> truthy (currentSession st)"
  let ?s = "remove_node (TypingDiv n) (settle i st)"
  have s: "step (ChatResponse i (Success d)) st = chat_catch n (chat_tail d ?s)"
    using a by (simp add: step_def sendChatMessage_response_def Let_def)
  have q: "getElementById (doc ?s) ''chatMessages'' \<noteq> None"
    using a by (simp add: getElementById_remove_node)
  from chat_catch_keeps_message [OF chat_tail_appends [OF q, of d], of n]
  show "MessageDiv ''assistant'' (reply_response d) \<in>
        set (transcript (after (step (ChatResponse i (Success d)) st)))"
    by (simp add: s)
  show "currentSession (after (step (ChatResponse i (Success d)) st)) = currentSession st"
    by (simp add: s chat_catch_keeps_session chat_tail_keeps_session)
qed


theorem concurrent_sends_adopt_one_session_witness:
  "\<exists>st2. sendChatMessage ''second'' (after (sendChatMessage ''first'' chat_page)) = Normal st2 \<and>
     pending st2 = [ChatFetch 0 ''first'' None, ChatFetch 1 ''second'' None] \<and>
     currentSession
       (run [ChatResponse 0 (Success reply_A), ChatResponse 0 (Success reply_B),
             SessionsResponse 0 (Success [])] st2) = Some ''A''"
proof -
  have h: "getElementById (doc chat_page) ''chatMessages'' \<noteq> None"
    "\<not> truthy (currentSession chat_page)" "truthy (reply_session_id reply_A)"
    "\<forall>ev \<in> set [ChatResponse 0 (Success reply_B), SessionsResponse 0 (Success [])]. is_reply ev"
    "0 = length (pending chat_page) \<or> 0 = Suc (length (pending chat_page))"
    by (simp_all add: chat_page_def page_def blank_def getElementById_def truthy_def
        reply_A_def is_reply_def)
  have v: "pending chat_page = []" "created chat_page = 0" "currentSession chat_page = None"
    "reply_session_id reply_A = Some ''A''"
    by (simp_all add: chat_page_def page_def reply_A_def)
  from concurrent_sends_adopt_one_session [OF h, of "''second''" "''first''"]
  show ?thesis by (simp add: v)
qed

text \<open>
  C1, as the claim has it, fails: the second of two sends is not held back. After two
  messages typed and sent with no reply in between, two chat requests are in flight,
  both without a session id.
\<close>

theorem two_requests_in_flight:
  "chat_in_flight (run two_sends chat_page) =
     [ChatFetch 0 ''first'' None, ChatFetch 1 ''second'' None]"
  unfolding two_sends_def by code_simp

theorem chat_reply_is_appended_whatever_the_session_witness:
  "(\<exists>st'. sendChatMessage ''again'' (run stale_trace chat_page) = Normal st' \<and>
      pending st' = [ChatFetch 0 ''question'' (Some ''A''), ChatFetch 1 ''again'' (Some ''B'')]) \<and>
   MessageDiv ''assistant'' ''answer for A'' \<in>
     set (transcript (after (step late_reply (run stale_trace chat_page)))) \<and>
   currentSession (after (step late_reply (run stale_trace chat_page))) = Some ''B''"
proof -
  have h: "getElementById (doc (run stale_trace chat_page)) ''chatMessages'' \<noteq> None"
    "0 < length (pending (run stale_trace chat_page))"
    "pending (run stale_trace chat_page) ! 0 = ChatFetch 0 ''question'' (Some ''A'')"
    "truthy (currentSession (run stale_trace chat_page))"
    by code_simp+
  have v: "pending (run stale_trace chat_page) = [ChatFetch 0 ''question'' (Some ''A'')]"
    "created (run stale_trace chat_page) = 1"
    "currentSession (run stale_trace chat_page) = Some ''B''"
    "reply_response reply_A = ''answer for A''"
    by code_simp+
  from chat_reply_is_appended_whatever_the_session
         [of "run stale_trace chat_page" "''again''" 0 0 "''question''" "Some ''A''" reply_A] h
  show ?thesis by (simp add: v late_reply_def)
qed

text \<open>
  C2, as the claim has it, fails: a request sent in session \<^verbatim>\<open>A\<close> is still pending when
  the user switches to session \<^verbatim>\<open>B\<close> and its history is shown; the late reply is then
  appended to the transcript of \<^verbatim>\<open>B\<close>.
\<close>

theorem stale_reply_is_appended:
  "pending (run stale_trace chat_page) = [ChatFetch 0 ''question'' (Some ''A'')] \<and>
   currentSession (run stale_trace chat_page) = Some ''B'' \<and>
   transcript (run stale_trace chat_page) = [MessageDiv ''user'' ''asked in B''] \<and>
   currentSession (run (stale_trace @ [late_reply]) chat_page) = Some ''B'' \<and>
   transcript (run (stale_trace @ [late_reply]) chat_page) =
     [MessageDiv ''user'' ''asked in B'', MessageDiv ''assistant'' ''answer for A'']"
  by code_simp

end
